theory Spec2Isabelle
  imports Main
begin

section \<open>Python values, dictionaries and exceptions\<close>

text \<open>
  The values the router's actions and the XML parser hand to this code are strings,
  booleans, integers and \<open>None\<close>. A \<open>dict\<close> with string keys is an association
  list read with \<open>map_of\<close>; a dict literal lists its items in the order written.
\<close>

datatype pyval = PyNone | PyBool bool | PyInt int | PyStr string

type_synonym pydict = "(string \<times> pyval) list"

text \<open>
  Modelled from the spec: the exception classes are declared in \<open>core/exceptions.py\<close>,
  which is not among the sources. The classes are the error kinds of the spec's section 7
  (\<open>FritzArgumentError\<close>, \<open>FritzLookUpError\<close>, \<open>FritzActionError\<close>,
  \<open>FritzAuthorizationError\<close>, the XML \<open>ParseError\<close>), the \<open>IndexError\<close> that
  ends an enumeration, and the interpreter's own \<open>KeyError\<close>, \<open>AttributeError\<close>,
  \<open>TypeError\<close>, \<open>ValueError\<close> and \<open>UnboundLocalError\<close>; \<open>OtherError\<close> stands for
  any class an \<open>except\<close> clause of this code does not name. An exception is its class
  and its message; for an exception the interpreter raises the message is the datum it
  reports (the missing key, the attribute, the rejected text).
\<close>

datatype exception_class =
    IndexError | KeyError | AttributeError | TypeError | ValueError | UnboundLocalError
  | ParseError | FritzArgumentError | FritzLookUpError | FritzActionError
  | FritzAuthorizationError | OtherError

type_synonym exception = "exception_class \<times> string"

type_synonym 'a result = "exception + 'a"

definition isinstance :: "exception \<Rightarrow> exception_class \<Rightarrow> bool" where
  "isinstance e c = (fst e = c)"

text \<open>\<open>d[key]\<close>: the value, or \<open>KeyError\<close>.\<close>

definition getitem :: "pydict \<Rightarrow> string \<Rightarrow> pyval result" where
  "getitem d key = (case map_of d key of None \<Rightarrow> Inl (KeyError, key) | Some v \<Rightarrow> Inr v)"

text \<open>The truth value Python gives a value in \<open>if v:\<close>.\<close>

fun truthy :: "pyval \<Rightarrow> bool" where
  "truthy PyNone = False"
| "truthy (PyBool b) = b"
| "truthy (PyInt i) = (i \<noteq> 0)"
| "truthy (PyStr s) = (s \<noteq> [])"

section \<open>The call-forwarding list: \<open>fritzcallforwarding.py\<close>\<close>

text \<open>
  An \<open>xml.etree.ElementTree\<close> element: its tag, its text (\<open>None\<close> when the element is
  empty) and its children in document order. \<open>findall(tag)\<close> gives the children with
  that tag in document order, \<open>find(tag)\<close> the first of them or \<open>None\<close>.
\<close>

datatype element = Element (el_tag: string) (el_text: "string option") (el_children: "element list")

definition findall :: "string \<Rightarrow> element \<Rightarrow> element list" where
  "findall t el = filter (\<lambda>c. el_tag c = t) (el_children el)"

definition find_el :: "string \<Rightarrow> element \<Rightarrow> element option" where
  "find_el t el = find (\<lambda>c. el_tag c = t) (el_children el)"

text \<open>\<open>element.find(tag).text\<close>: reading \<open>.text\<close> of \<open>None\<close> raises \<open>AttributeError\<close>.\<close>

definition child_text :: "element \<Rightarrow> string \<Rightarrow> (string option) result" where
  "child_text el t =
     (case find_el t el of None \<Rightarrow> Inl (AttributeError, ''text'') | Some c \<Rightarrow> Inr (el_text c))"

text \<open>
  \<open>int(text)\<close>. The builtin's reading of a string is the parameter \<open>py_int\<close>
  (\<open>None\<close> where it raises \<open>ValueError\<close>); on \<open>None\<close> the builtin raises \<open>TypeError\<close>.
\<close>

definition int_of_text :: "(string \<Rightarrow> int option) \<Rightarrow> string option \<Rightarrow> int result" where
  "int_of_text py_int t =
     (case t of
        None \<Rightarrow> Inl (TypeError, ''int()'')
      | Some s \<Rightarrow> (case py_int s of None \<Rightarrow> Inl (ValueError, s) | Some n \<Rightarrow> Inr n))"

definition text_value :: "string option \<Rightarrow> pyval" where
  "text_value t = (case t of None \<Rightarrow> PyNone | Some s \<Rightarrow> PyStr s)"

text \<open>
  The five locals one pass of the loop body assigns (lines 98 to 102), in the order
  \<open>uid\<close>, \<open>enabled\<close>, \<open>connection_type\<close>, \<open>from_number\<close>, \<open>to_number\<close>; the first lookup
  that raises ends the pass.
\<close>

type_synonym item_locals = "string option \<times> int \<times> string option \<times> string option \<times> string option"

definition read_item :: "(string \<Rightarrow> int option) \<Rightarrow> element \<Rightarrow> item_locals result" where
  "read_item py_int el =
     (case child_text el ''DeflectionId'' of Inl e \<Rightarrow> Inl e | Inr uid \<Rightarrow>
     (case child_text el ''Enable'' of Inl e \<Rightarrow> Inl e | Inr enable_text \<Rightarrow>
     (case int_of_text py_int enable_text of Inl e \<Rightarrow> Inl e | Inr enabled \<Rightarrow>
     (case child_text el ''Type'' of Inl e \<Rightarrow> Inl e | Inr connection_type \<Rightarrow>
     (case child_text el ''Number'' of Inl e \<Rightarrow> Inl e | Inr from_number \<Rightarrow>
     (case child_text el ''DeflectionToNumber'' of Inl e \<Rightarrow> Inl e | Inr to_number \<Rightarrow>
        Inr (uid, enabled, connection_type, from_number, to_number)))))))"

text \<open>The dict literal both branches of the filter append.\<close>

fun call_forwarding :: "item_locals \<Rightarrow> pydict" where
  "call_forwarding (uid, enabled, connection_type, from_number, to_number) =
     [(''uid'', text_value uid),
      (''from_number'', text_value from_number),
      (''to_number'', text_value to_number),
      (''connection_type'', text_value connection_type),
      (''enabled'', PyInt enabled)]"

fun to_number_of :: "item_locals \<Rightarrow> string option" where
  "to_number_of (uid, enabled, connection_type, from_number, to_number) = to_number"

text \<open>The \<open>for element in element_tree.findall('Item')\<close> loop, appending to \<open>call_forwardings\<close>.\<close>

fun parse_items ::
  "(string \<Rightarrow> int option) \<Rightarrow> bool \<Rightarrow> element list \<Rightarrow> pydict list \<Rightarrow> (pydict list) result" where
  "parse_items py_int filter_blocked [] call_forwardings = Inr call_forwardings"
| "parse_items py_int filter_blocked (el # rest) call_forwardings =
     (case read_item py_int el of
        Inl e \<Rightarrow> Inl e
      | Inr locals \<Rightarrow>
          if filter_blocked then
            (if to_number_of locals \<noteq> None
             then parse_items py_int filter_blocked rest (call_forwardings @ [call_forwarding locals])
             else parse_items py_int filter_blocked rest call_forwardings)
          else parse_items py_int filter_blocked rest (call_forwardings @ [call_forwarding locals]))"

text \<open>
  \<open>parse_call_forwarding_list(call_forwarding_list, filter_blocked=True)\<close>.
  \<open>ET.fromstring\<close> is the XML parsing collaborator, the parameter \<open>fromstring\<close>:
  the root element, or the \<open>ParseError\<close> it raises.
\<close>

definition parse_call_forwarding_list ::
  "(string \<Rightarrow> element result) \<Rightarrow> (string \<Rightarrow> int option) \<Rightarrow> string \<Rightarrow> bool \<Rightarrow> (pydict list) result" where
  "parse_call_forwarding_list fromstring py_int call_forwarding_list filter_blocked =
     (case fromstring call_forwarding_list of
        Inl e \<Rightarrow> Inl e
      | Inr element_tree \<Rightarrow> parse_items py_int filter_blocked (findall ''Item'' element_tree) [])"

section \<open>The known hosts: \<open>lib/fritzhosts.py\<close>\<close>

text \<open>
  \<open>str(i)\<close> of an integer and \<open>str(v)\<close> of a value, as an f-string formats them.
\<close>

fun str_of_nat :: "nat \<Rightarrow> string" where
  "str_of_nat n =
     (if n < 10 then [''0123456789'' ! n] else str_of_nat (n div 10) @ [''0123456789'' ! (n mod 10)])"

definition str_of_int :: "int \<Rightarrow> string" where
  "str_of_int i = (if i < 0 then ''-'' @ str_of_nat (nat (- i)) else str_of_nat (nat i))"

fun py_str :: "pyval \<Rightarrow> string" where
  "py_str PyNone = ''None''"
| "py_str (PyBool b) = (if b then ''True'' else ''False'')"
| "py_str (PyInt i) = str_of_int i"
| "py_str (PyStr s) = s"

text \<open>
  The arguments of the wake-on-LAN tool, as \<open>argparse\<close> leaves them: each option is a
  string or \<open>None\<close>.
\<close>

record wol_args =
  device_mac_address :: "string option"
  device_ip_address :: "string option"
  device_name :: "string option"

text \<open>
  What the code does to the world, in the order it does it: a remote action
  (\<open>fc.call_action(service, action, arguments=..., **kwargs)\<close>), an HTTP GET of the
  session, and the two lines \<open>wake_host\<close> prints. Every function takes the log of the
  events so far and returns it extended.
\<close>

datatype event =
    Call_action string string "pydict option" pydict
  | Session_get string
  | Print_args wol_args
  | Print_waking pyval

type_synonym log = "event list"

text \<open>
  The answer of \<open>session.get(url)\<close>; \<open>response_json\<close> is what \<open>response.json()\<close>
  returns or raises, the parsed value being of any type \<open>'j\<close>.
\<close>

record 'j response =
  response_ok :: bool
  status_code :: int
  response_text :: string
  response_json :: "'j result"

text \<open>
  The \<open>FritzConnection\<close> collaborator \<open>fc\<close>: the remote action invoker, answering a
  call with a dict or an exception, the address and port of the router, and the GET of
  its session.
\<close>

record 'j fritzconnection =
  call_action :: "string \<Rightarrow> string \<Rightarrow> pydict option \<Rightarrow> pydict \<Rightarrow> pydict result"
  address :: string
  port :: int
  session_get :: "string \<Rightarrow> ('j response) result"

definition SERVICE :: string where
  "SERVICE = ''Hosts1''"

text \<open>\<open>_action(actionname, *, arguments=None, **kwargs)\<close>.\<close>

definition action ::
  "'j fritzconnection \<Rightarrow> string \<Rightarrow> pydict option \<Rightarrow> pydict \<Rightarrow> log \<Rightarrow> pydict result \<times> log" where
  "action fc actionname arguments kwargs lg =
     (call_action fc SERVICE actionname arguments kwargs,
      lg @ [Call_action SERVICE actionname arguments kwargs])"

definition get_generic_host_entry :: "'j fritzconnection \<Rightarrow> int \<Rightarrow> log \<Rightarrow> pydict result \<times> log" where
  "get_generic_host_entry fc index lg =
     action fc ''GetGenericHostEntry'' None [(''NewIndex'', PyInt index)] lg"

text \<open>
  \<open>get_generic_host_entries\<close> is a generator function: calling it runs none of its
  body and gives a generator whose loop variable \<open>index\<close> will start at 0. The state
  of a generator is the index its next step asks for, or that it has ended; a step
  (\<open>next\<close>) yields an entry, stops (\<open>StopIteration\<close>, here after the \<open>IndexError\<close>
  the loop catches), or raises the exception the loop does not catch.
\<close>

datatype generator = Next_index nat | Ended

datatype 'a step = Yield 'a | StopIteration | Raised exception

definition get_generic_host_entries :: "'j fritzconnection \<Rightarrow> generator" where
  "get_generic_host_entries fc = Next_index 0"

fun next_entry :: "'j fritzconnection \<Rightarrow> generator \<Rightarrow> log \<Rightarrow> (pydict step \<times> generator) \<times> log" where
  "next_entry fc Ended lg = ((StopIteration, Ended), lg)"
| "next_entry fc (Next_index index) lg =
     (case get_generic_host_entry fc (int index) lg of
        (Inr entry, lg') \<Rightarrow> ((Yield entry, Next_index (Suc index)), lg')
      | (Inl e, lg') \<Rightarrow>
          if isinstance e IndexError then ((StopIteration, Ended), lg')
          else ((Raised e, Ended), lg'))"

text \<open>The first \<open>k\<close> steps a consumer takes from a generator, in order.\<close>

fun take_steps ::
  "'j fritzconnection \<Rightarrow> nat \<Rightarrow> generator \<Rightarrow> log \<Rightarrow> (pydict step list \<times> generator) \<times> log" where
  "take_steps fc 0 g lg = (([], g), lg)"
| "take_steps fc (Suc k) g lg =
     (case next_entry fc g lg of
        ((s, g'), lg') \<Rightarrow>
          (case take_steps fc k g' lg' of ((ss, g''), lg'') \<Rightarrow> ((s # ss, g''), lg'')))"


definition get_specific_host_entry_by_ip :: "'j fritzconnection \<Rightarrow> string \<Rightarrow> log \<Rightarrow> pydict result \<times> log" where
  "get_specific_host_entry_by_ip fc ip lg =
     action fc ''X_AVM-DE_GetSpecificHostEntryByIP'' None [(''NewIPAddress'', PyStr ip)] lg"


text \<open>
  The dict literal of \<open>get_hosts_info\<close>: its seven values are read in the order
  written, and the first key the raw entry lacks raises \<open>KeyError\<close>.
\<close>

definition host_info :: "pydict \<Rightarrow> pydict result" where
  "host_info host =
     (case getitem host ''NewIPAddress'' of Inl e \<Rightarrow> Inl e | Inr ip \<Rightarrow>
     (case getitem host ''NewHostName'' of Inl e \<Rightarrow> Inl e | Inr name \<Rightarrow>
     (case getitem host ''NewMACAddress'' of Inl e \<Rightarrow> Inl e | Inr mac \<Rightarrow>
     (case getitem host ''NewActive'' of Inl e \<Rightarrow> Inl e | Inr status \<Rightarrow>
     (case getitem host ''NewInterfaceType'' of Inl e \<Rightarrow> Inl e | Inr interface_type \<Rightarrow>
     (case getitem host ''NewAddressSource'' of Inl e \<Rightarrow> Inl e | Inr address_source \<Rightarrow>
     (case getitem host ''NewLeaseTimeRemaining'' of Inl e \<Rightarrow> Inl e | Inr lease_time_remaining \<Rightarrow>
        Inr [(''ip'', ip),
             (''name'', name),
             (''mac'', mac),
             (''status'', status),
             (''interface_type'', interface_type),
             (''address_source'', address_source),
             (''lease_time_remaining'', lease_time_remaining)])))))))"

text \<open>
  The loop of \<open>get_hosts_info\<close> over \<open>itertools.count()\<close>, with the list \<open>result\<close> it
  appends to. The loop has no bound of its own: where the router never answers with
  \<open>IndexError\<close> and never fails it does not return, which is the value \<open>None\<close>.
\<close>

partial_function (option) hosts_info_loop ::
  "'j fritzconnection \<Rightarrow> nat \<Rightarrow> pydict list \<Rightarrow> log \<Rightarrow> ((pydict list) result \<times> log) option" where
  "hosts_info_loop fc index result lg =
     (case get_generic_host_entry fc (int index) lg of
        (Inl e, lg') \<Rightarrow>
          if isinstance e IndexError then Some (Inr result, lg') else Some (Inl e, lg')
      | (Inr host, lg') \<Rightarrow>
          (case host_info host of
             Inl e \<Rightarrow> Some (Inl e, lg')
           | Inr info \<Rightarrow> hosts_info_loop fc (Suc index) (result @ [info]) lg'))"

definition get_hosts_info :: "'j fritzconnection \<Rightarrow> log \<Rightarrow> ((pydict list) result \<times> log) option" where
  "get_hosts_info fc lg = hosts_info_loop fc 0 [] lg"

text \<open>The comprehension \<open>[host for host in hosts if host["status"]]\<close>.\<close>

fun active_only :: "pydict list \<Rightarrow> (pydict list) result" where
  "active_only [] = Inr []"
| "active_only (host # hosts) =
     (case getitem host ''status'' of
        Inl e \<Rightarrow> Inl e
      | Inr status \<Rightarrow>
          (case active_only hosts of
             Inl e \<Rightarrow> Inl e
           | Inr rest \<Rightarrow> Inr (if truthy status then host # rest else rest)))"

definition get_active_hosts :: "'j fritzconnection \<Rightarrow> log \<Rightarrow> ((pydict list) result \<times> log) option" where
  "get_active_hosts fc lg =
     (case get_hosts_info fc lg of
        None \<Rightarrow> None
      | Some (Inl e, lg') \<Rightarrow> Some (Inl e, lg')
      | Some (Inr hosts, lg') \<Rightarrow> Some (active_only hosts, lg'))"

text \<open>
  \<open>get_mesh_topology(raw=False)\<close>: the topology as text, or as the parsed JSON value.
  The response is released when the \<open>with\<close> block is left, on either way out; the log
  does not record it.
\<close>

datatype 'j topology = Topology_text string | Topology_json 'j

definition get_mesh_topology :: "'j fritzconnection \<Rightarrow> bool \<Rightarrow> log \<Rightarrow> ('j topology) result \<times> log" where
  "get_mesh_topology fc raw lg =
     (case action fc ''X_AVM-DE_GetMeshListPath'' None [] lg of
        (Inl e, lg1) \<Rightarrow> (Inl e, lg1)
      | (Inr result, lg1) \<Rightarrow>
          (case getitem result ''NewX_AVM-DE_MeshListPath'' of
             Inl e \<Rightarrow> (Inl e, lg1)
           | Inr path \<Rightarrow>
               (let url = address fc @ '':'' @ str_of_int (port fc) @ py_str path;
                    lg2 = lg1 @ [Session_get url]
                in case session_get fc url of
                     Inl e \<Rightarrow> (Inl e, lg2)
                   | Inr response \<Rightarrow>
                       if \<not> response_ok response then
                         (Inl (FritzActionError,
                               ''Error '' @ str_of_int (status_code response)
                                 @ '': Device has no access to topology information.''),
                          lg2)
                       else if raw then (Inr (Topology_text (response_text response)), lg2)
                       else (case response_json response of
                               Inl e \<Rightarrow> (Inl e, lg2)
                             | Inr j \<Rightarrow> (Inr (Topology_json j), lg2)))))"

definition wakeonlan_host :: "'j fritzconnection \<Rightarrow> pyval \<Rightarrow> log \<Rightarrow> unit result \<times> log" where
  "wakeonlan_host fc mac_address lg =
     (case action fc ''X_AVM-DE_WakeOnLANByMACAddress'' None [(''NewMACAddress'', mac_address)] lg of
        (Inl e, lg') \<Rightarrow> (Inl e, lg')
      | (Inr info, lg') \<Rightarrow> (Inr (), lg'))"

section \<open>Waking a host: \<open>cli/fritzwol.py\<close>\<close>

text \<open>
  \<open>if args.device_mac_address:\<close> holds for a string that is not empty. \<open>str.lower\<close>
  is the parameter \<open>lower\<close>; a value that is not a string has no such method.
\<close>

definition given :: "string option \<Rightarrow> bool" where
  "given a = (case a of None \<Rightarrow> False | Some s \<Rightarrow> s \<noteq> [])"

definition lower_of :: "(string \<Rightarrow> string) \<Rightarrow> pyval \<Rightarrow> string result" where
  "lower_of lower v = (case v of PyStr s \<Rightarrow> Inr (lower s) | _ \<Rightarrow> Inl (AttributeError, ''lower''))"

text \<open>
  The \<open>for entry in fh.get_generic_host_entries(): ... else: raise\<close> loop of the name
  branch, one step of the generator per pass: the MAC of the first entry whose lowered
  name is the lowered \<open>device_name\<close>, or the \<open>FritzArgumentError\<close> of the \<open>else\<close> when the
  generator stops.
\<close>

partial_function (option) scan_entries ::
  "(string \<Rightarrow> string) \<Rightarrow> 'j fritzconnection \<Rightarrow> string \<Rightarrow> string \<Rightarrow> generator \<Rightarrow> log
     \<Rightarrow> (pyval result \<times> log) option" where
  "scan_entries lower fc name_given lowered_name g lg =
     (case next_entry fc g lg of
        ((StopIteration, g'), lg') \<Rightarrow>
          Some (Inl (FritzArgumentError,
                     ''Error: unknown device name '' @ [CHR 0x27] @ name_given @ [CHR 0x27]), lg')
      | ((Raised e, g'), lg') \<Rightarrow> Some (Inl e, lg')
      | ((Yield entry, g'), lg') \<Rightarrow>
          (case getitem entry ''NewHostName'' of
             Inl e \<Rightarrow> Some (Inl e, lg')
           | Inr name \<Rightarrow>
               (case lower_of lower name of
                  Inl e \<Rightarrow> Some (Inl e, lg')
                | Inr lowered \<Rightarrow>
                    if lowered = lowered_name then
                      (case getitem entry ''NewMACAddress'' of
                         Inl e \<Rightarrow> Some (Inl e, lg')
                       | Inr mac \<Rightarrow> Some (Inr mac, lg'))
                    else scan_entries lower fc name_given lowered_name g' lg')))"

text \<open>
  The \<open>if\<close>/\<open>elif\<close> chain of \<open>wake_host\<close> that binds \<open>mac\<close>: \<open>Inr (Some mac)\<close> when
  a branch bound it, \<open>Inr None\<close> when no branch ran and \<open>mac\<close> stays unbound.
\<close>

definition resolve_mac ::
  "(string \<Rightarrow> string) \<Rightarrow> 'j fritzconnection \<Rightarrow> wol_args \<Rightarrow> log \<Rightarrow> ((pyval option) result \<times> log) option" where
  "resolve_mac lower fc args lg =
     (if given (device_mac_address args) then
        Some (Inr (Some (PyStr (the (device_mac_address args)))), lg)
      else if given (device_ip_address args) then
        (case get_specific_host_entry_by_ip fc (the (device_ip_address args)) lg of
           (Inl e, lg') \<Rightarrow>
             if isinstance e FritzArgumentError \<or> isinstance e FritzLookUpError
             then Some (Inl (FritzArgumentError,
                             ''Error: unknown IP '' @ the (device_ip_address args)), lg')
             else Some (Inl e, lg')
         | (Inr host, lg') \<Rightarrow>
             (case getitem host ''NewMACAddress'' of
                Inl e \<Rightarrow> Some (Inl e, lg')
              | Inr mac \<Rightarrow> Some (Inr (Some mac), lg')))
      else if given (device_name args) then
        (case scan_entries lower fc (the (device_name args)) (lower (the (device_name args)))
                (get_generic_host_entries fc) lg of
           None \<Rightarrow> None
         | Some (Inl e, lg') \<Rightarrow> Some (Inl e, lg')
         | Some (Inr mac, lg') \<Rightarrow> Some (Inr (Some mac), lg'))
      else Some (Inr None, lg))"

text \<open>
  \<open>wake_host(fh, args)\<close>, \<open>fh\<close> being the \<open>FritzHosts\<close> over \<open>fc\<close>: print the
  arguments, bind \<open>mac\<close>, trigger the wake-up, print the MAC. Using \<open>mac\<close> unbound
  raises \<open>UnboundLocalError\<close>.
\<close>

definition wake_host ::
  "(string \<Rightarrow> string) \<Rightarrow> 'j fritzconnection \<Rightarrow> wol_args \<Rightarrow> log \<Rightarrow> (unit result \<times> log) option" where
  "wake_host lower fc args lg =
     (case resolve_mac lower fc args (lg @ [Print_args args]) of
        None \<Rightarrow> None
      | Some (Inl e, lg1) \<Rightarrow> Some (Inl e, lg1)
      | Some (Inr None, lg1) \<Rightarrow> Some (Inl (UnboundLocalError, ''mac''), lg1)
      | Some (Inr (Some mac), lg1) \<Rightarrow>
          (case wakeonlan_host fc mac lg1 of
             (Inl e, lg2) \<Rightarrow> Some (Inl e, lg2)
           | (Inr u, lg2) \<Rightarrow> Some (Inr (), lg2 @ [Print_waking mac])))"

section \<open>Vocabulary of the properties\<close>

text \<open>
  The definitions of this section are not code: they name what the properties below
  speak about (the answers of the router, the events of the log, the shape of an input).
\<close>

subsection \<open>Call forwardings\<close>

definition item_tags :: "string list" where
  "item_tags = [''DeflectionId'', ''Enable'', ''Type'', ''Number'', ''DeflectionToNumber'']"

text \<open>
  An \<open>Item\<close> that carries all five children and whose \<open>Enable\<close> child has a text
  that \<open>int()\<close> reads.
\<close>

definition item_wellformed :: "(string \<Rightarrow> int option) \<Rightarrow> element \<Rightarrow> bool" where
  "item_wellformed py_int el =
     (list_all (\<lambda>t. find_el t el \<noteq> None) item_tags \<and>
      (case find_el ''Enable'' el of
         None \<Rightarrow> False
       | Some c \<Rightarrow> (case el_text c of None \<Rightarrow> False | Some s \<Rightarrow> py_int s \<noteq> None)))"

fun enabled_of :: "item_locals \<Rightarrow> int" where
  "enabled_of (uid, enabled, connection_type, from_number, to_number) = enabled"

text \<open>\<open>isinstance(v, bool)\<close>.\<close>

definition is_bool :: "pyval \<Rightarrow> bool" where
  "is_bool v = (case v of PyBool b \<Rightarrow> True | _ \<Rightarrow> False)"

subsection \<open>Hosts\<close>

text \<open>
  The event of asking the router for the entry at an index, and the router's answer.
\<close>

definition entry_call :: "nat \<Rightarrow> event" where
  "entry_call i = Call_action SERVICE ''GetGenericHostEntry'' None [(''NewIndex'', PyInt (int i))]"

definition entry_answer :: "'j fritzconnection \<Rightarrow> nat \<Rightarrow> pydict result" where
  "entry_answer fc i =
     call_action fc SERVICE ''GetGenericHostEntry'' None [(''NewIndex'', PyInt (int i))]"

text \<open>
  A router that knows the hosts \<open>entries\<close>: it answers the indices below their number
  with the entries, in order, and the index equal to their number with an \<open>IndexError\<close>.
\<close>

definition known_hosts :: "'j fritzconnection \<Rightarrow> pydict list \<Rightarrow> bool" where
  "known_hosts fc entries =
     (map (entry_answer fc) [0..<length entries] = map Inr entries \<and>
      (case entry_answer fc (length entries) of Inl e \<Rightarrow> isinstance e IndexError | Inr d \<Rightarrow> False))"

definition vendor_keys :: "string list" where
  "vendor_keys = [''NewIPAddress'', ''NewHostName'', ''NewMACAddress'', ''NewActive'',
                  ''NewInterfaceType'', ''NewAddressSource'', ''NewLeaseTimeRemaining'']"

definition canonical_keys :: "string list" where
  "canonical_keys = [''ip'', ''name'', ''mac'', ''status'', ''interface_type'',
                     ''address_source'', ''lease_time_remaining'']"

definition complete_entry :: "pydict \<Rightarrow> bool" where
  "complete_entry d = list_all (\<lambda>k. map_of d k \<noteq> None) vendor_keys"

definition status_of :: "pydict \<Rightarrow> pyval option" where
  "status_of host = map_of host ''status''"

subsection \<open>Waking a host\<close>

definition wake_call :: "pyval \<Rightarrow> event" where
  "wake_call mac = Call_action SERVICE ''X_AVM-DE_WakeOnLANByMACAddress'' None [(''NewMACAddress'', mac)]"

definition wake_answer :: "'j fritzconnection \<Rightarrow> pyval \<Rightarrow> pydict result" where
  "wake_answer fc mac =
     call_action fc SERVICE ''X_AVM-DE_WakeOnLANByMACAddress'' None [(''NewMACAddress'', mac)]"

definition ip_call :: "string \<Rightarrow> event" where
  "ip_call ip = Call_action SERVICE ''X_AVM-DE_GetSpecificHostEntryByIP'' None [(''NewIPAddress'', PyStr ip)]"

definition ip_answer :: "'j fritzconnection \<Rightarrow> string \<Rightarrow> pydict result" where
  "ip_answer fc ip =
     call_action fc SERVICE ''X_AVM-DE_GetSpecificHostEntryByIP'' None [(''NewIPAddress'', PyStr ip)]"

text \<open>
  The wake trigger called with \<open>mac\<close> after the events \<open>lg\<close>: the call is logged, its
  exception is the result if it raises, and the line \<open>Waking ...\<close> is printed if it
  does not.
\<close>

definition wake_outcome :: "'j fritzconnection \<Rightarrow> pyval \<Rightarrow> log \<Rightarrow> unit result \<times> log" where
  "wake_outcome fc mac lg =
     (case wake_answer fc mac of
        Inl e \<Rightarrow> (Inl e, lg @ [wake_call mac])
      | Inr info \<Rightarrow> (Inr (), lg @ [wake_call mac, Print_waking mac]))"

text \<open>
  An entry whose \<open>NewHostName\<close> is a string equal to \<open>name\<close> up to case, and an entry
  whose \<open>NewHostName\<close> is a string that differs from it even up to case.
\<close>

definition named :: "(string \<Rightarrow> string) \<Rightarrow> string \<Rightarrow> pydict \<Rightarrow> bool" where
  "named lower name entry =
     (case map_of entry ''NewHostName'' of Some (PyStr s) \<Rightarrow> lower s = lower name | _ \<Rightarrow> False)"

definition named_otherwise :: "(string \<Rightarrow> string) \<Rightarrow> string \<Rightarrow> pydict \<Rightarrow> bool" where
  "named_otherwise lower name entry =
     (case map_of entry ''NewHostName'' of Some (PyStr s) \<Rightarrow> lower s \<noteq> lower name | _ \<Rightarrow> False)"

definition is_wake :: "event \<Rightarrow> bool" where
  "is_wake ev =
     (case ev of
        Call_action service actionname arguments kwargs \<Rightarrow>
          actionname = ''X_AVM-DE_WakeOnLANByMACAddress''
      | _ \<Rightarrow> False)"

section \<open>Concrete inputs\<close>

text \<open>
  The inputs at which the properties are evaluated. \<open>int_decimal\<close> and \<open>ascii_lower\<close>
  stand in for the builtins \<open>int\<close> and \<open>str.lower\<close> there: \<open>int_decimal\<close> reads an
  optional sign followed by ASCII digits and rejects every other text (\<open>int\<close> also
  accepts surrounding white space, underscores between digits and other decimal digits,
  which no text below contains), and \<open>ascii_lower\<close> lowers the letters A to Z (as
  \<open>str.lower\<close> does on ASCII text).
\<close>

fun nat_of_digits :: "string \<Rightarrow> nat \<Rightarrow> nat option" where
  "nat_of_digits [] acc = Some acc"
| "nat_of_digits (c # cs) acc =
     (if c \<in> set ''0123456789'' then nat_of_digits cs (10 * acc + (of_char c - 48)) else None)"

definition int_decimal :: "string \<Rightarrow> int option" where
  "int_decimal s =
     (case s of
        [] \<Rightarrow> None
      | c # cs \<Rightarrow>
          if c = CHR ''-'' then (if cs = [] then None else map_option (\<lambda>n. - int n) (nat_of_digits cs 0))
          else if c = CHR ''+'' then (if cs = [] then None else map_option int (nat_of_digits cs 0))
          else map_option int (nat_of_digits s 0))"

definition ascii_lower :: "string \<Rightarrow> string" where
  "ascii_lower s =
     map (\<lambda>c. case map_of (zip ''ABCDEFGHIJKLMNOPQRSTUVWXYZ'' ''abcdefghijklmnopqrstuvwxyz'') c of
                 None \<Rightarrow> c
               | Some l \<Rightarrow> l) s"

subsection \<open>A deflection list\<close>

definition deflection_item :: "string \<Rightarrow> string \<Rightarrow> string option \<Rightarrow> element" where
  "deflection_item uid enable to_number =
     Element ''Item'' None
       [Element ''DeflectionId'' (Some uid) [],
        Element ''Enable'' (Some enable) [],
        Element ''Type'' (Some ''fromNumber'') [],
        Element ''Number'' (Some ''0301234'') [],
        Element ''DeflectionToNumber'' to_number []]"

text \<open>Three rules, the second a blocked number; the third has the \<open>Enable\<close> text 2.\<close>

definition sample_blob :: string where
  "sample_blob = ''<List><Item><DeflectionId>0</DeflectionId><Enable>1</Enable><Type>fromNumber</Type><Number>0301234</Number><DeflectionToNumber>0307777</DeflectionToNumber></Item><Item><DeflectionId>1</DeflectionId><Enable>0</Enable><Type>fromNumber</Type><Number>0301234</Number><DeflectionToNumber /></Item><Item><DeflectionId>2</DeflectionId><Enable>2</Enable><Type>fromNumber</Type><Number>0301234</Number><DeflectionToNumber>0308888</DeflectionToNumber></Item></List>''"

definition sample_root :: element where
  "sample_root =
     Element ''List'' None
       [deflection_item ''0'' ''1'' (Some ''0307777''),
        deflection_item ''1'' ''0'' None,
        deflection_item ''2'' ''2'' (Some ''0308888'')]"

text \<open>Two rules, the second without its \<open>Enable\<close> child.\<close>

definition broken_blob :: string where
  "broken_blob = ''<List><Item><DeflectionId>0</DeflectionId><Enable>1</Enable><Type>fromNumber</Type><Number>0301234</Number><DeflectionToNumber>0307777</DeflectionToNumber></Item><Item><DeflectionId>1</DeflectionId><Type>fromNumber</Type><Number>0301234</Number><DeflectionToNumber>0308888</DeflectionToNumber></Item></List>''"

definition broken_root :: element where
  "broken_root =
     Element ''List'' None
       [deflection_item ''0'' ''1'' (Some ''0307777''),
        Element ''Item'' None
          [Element ''DeflectionId'' (Some ''1'') [],
           Element ''Type'' (Some ''fromNumber'') [],
           Element ''Number'' (Some ''0301234'') [],
           Element ''DeflectionToNumber'' (Some ''0308888'') []]]"

text \<open>
  Three rules, the second a blocked number, the third without its \<open>Type\<close> child; and
  the XML parser on this document.
\<close>

definition typeless_item :: element where
  "typeless_item =
     Element ''Item'' None
       [Element ''DeflectionId'' (Some ''2'') [],
        Element ''Enable'' (Some ''1'') [],
        Element ''Number'' (Some ''0301234'') [],
        Element ''DeflectionToNumber'' (Some ''0308888'') []]"

definition typeless_blob :: string where
  "typeless_blob = ''<List><Item><DeflectionId>0</DeflectionId><Enable>1</Enable><Type>fromNumber</Type><Number>0301234</Number><DeflectionToNumber>0307777</DeflectionToNumber></Item><Item><DeflectionId>1</DeflectionId><Enable>0</Enable><Type>fromNumber</Type><Number>0301234</Number><DeflectionToNumber /></Item><Item><DeflectionId>2</DeflectionId><Enable>1</Enable><Number>0301234</Number><DeflectionToNumber>0308888</DeflectionToNumber></Item></List>''"

definition typeless_root :: element where
  "typeless_root =
     Element ''List'' None
       [deflection_item ''0'' ''1'' (Some ''0307777''),
        deflection_item ''1'' ''0'' None,
        typeless_item]"

definition typeless_fromstring :: "string \<Rightarrow> element result" where
  "typeless_fromstring s = (if s = typeless_blob then Inr typeless_root else Inl (ParseError, s))"

text \<open>The XML parser on the two documents; every other text it rejects.\<close>

definition sample_fromstring :: "string \<Rightarrow> element result" where
  "sample_fromstring s =
     (if s = sample_blob then Inr sample_root
      else if s = broken_blob then Inr broken_root
      else Inl (ParseError, s))"

definition sample_record :: "string \<Rightarrow> int \<Rightarrow> pyval \<Rightarrow> pydict" where
  "sample_record uid enabled to_number =
     [(''uid'', PyStr uid), (''from_number'', PyStr ''0301234''), (''to_number'', to_number),
      (''connection_type'', PyStr ''fromNumber''), (''enabled'', PyInt enabled)]"

subsection \<open>A router with two hosts\<close>

definition sample_entry :: "string \<Rightarrow> string \<Rightarrow> string \<Rightarrow> bool \<Rightarrow> pydict" where
  "sample_entry ip name mac active =
     [(''NewIPAddress'', PyStr ip),
      (''NewAddressSource'', PyStr ''DHCP''),
      (''NewLeaseTimeRemaining'', PyInt 0),
      (''NewMACAddress'', PyStr mac),
      (''NewInterfaceType'', PyStr ''Ethernet''),
      (''NewActive'', PyBool active),
      (''NewHostName'', PyStr name)]"

definition otherhost :: pydict where
  "otherhost = sample_entry ''192.168.178.20'' ''otherhost'' ''11:22:33:44:55:66'' False"

definition thishost :: pydict where
  "thishost = sample_entry ''192.168.178.21'' ''ThisHost'' ''C0:FF:EE:C0:FF:EE'' True"

definition sample_hosts :: "pydict list" where
  "sample_hosts = [otherhost, thishost]"

definition sample_info :: "string \<Rightarrow> string \<Rightarrow> string \<Rightarrow> bool \<Rightarrow> pydict" where
  "sample_info ip name mac active =
     [(''ip'', PyStr ip), (''name'', PyStr name), (''mac'', PyStr mac), (''status'', PyBool active),
      (''interface_type'', PyStr ''Ethernet''), (''address_source'', PyStr ''DHCP''),
      (''lease_time_remaining'', PyInt 0)]"

definition otherhost_info :: pydict where
  "otherhost_info = sample_info ''192.168.178.20'' ''otherhost'' ''11:22:33:44:55:66'' False"

definition thishost_info :: pydict where
  "thishost_info = sample_info ''192.168.178.21'' ''ThisHost'' ''C0:FF:EE:C0:FF:EE'' True"

text \<open>
  The router's answers: the entry at an index, the entry with a MAC or an IP address
  (\<open>FritzLookUpError\<close> when no host has it), the acknowledged wake-up, and the path of
  the mesh list.
\<close>

definition sample_lookup :: "string \<Rightarrow> pydict \<Rightarrow> pydict result" where
  "sample_lookup key kwargs =
     (case map_of kwargs key of
        None \<Rightarrow> Inl (FritzArgumentError, key)
      | Some v \<Rightarrow>
          (case find (\<lambda>d. map_of d key = Some v) sample_hosts of
             None \<Rightarrow> Inl (FritzLookUpError, ''NoSuchEntryInArray'')
           | Some d \<Rightarrow> Inr d))"

definition sample_router :: "string \<Rightarrow> string \<Rightarrow> pydict option \<Rightarrow> pydict \<Rightarrow> pydict result" where
  "sample_router service actionname arguments kwargs =
     (if service \<noteq> ''Hosts1'' then Inl (OtherError, service)
      else if actionname = ''GetGenericHostEntry'' then
        (case map_of kwargs ''NewIndex'' of
           Some (PyInt i) \<Rightarrow>
             if 0 \<le> i \<and> i < int (length sample_hosts) then Inr (sample_hosts ! nat i)
             else Inl (IndexError, ''SpecifiedArrayIndexInvalid'')
         | _ \<Rightarrow> Inl (FritzArgumentError, ''NewIndex''))
      else if actionname = ''GetSpecificHostEntry'' then sample_lookup ''NewMACAddress'' kwargs
      else if actionname = ''X_AVM-DE_GetSpecificHostEntryByIP'' then sample_lookup ''NewIPAddress'' kwargs
      else if actionname = ''X_AVM-DE_WakeOnLANByMACAddress'' then Inr []
      else if actionname = ''X_AVM-DE_GetMeshListPath'' then
        Inr [(''NewX_AVM-DE_MeshListPath'', PyStr ''/meshlist.lua?sid=0'')]
      else Inl (FritzActionError, actionname))"

text \<open>The session serves the mesh list on port 49000 and answers 404 elsewhere.\<close>

definition sample_session :: "string \<Rightarrow> (pydict response) result" where
  "sample_session url =
     (if url = ''http://192.168.178.1:49000/meshlist.lua?sid=0'' then
        Inr \<lparr>response_ok = True, status_code = 200,
             response_text = ''{\"schema_version\": \"1.9\"}'',
             response_json = Inr [(''schema_version'', PyStr ''1.9'')]\<rparr>
      else
        Inr \<lparr>response_ok = False, status_code = 404, response_text = [],
             response_json = Inl (ValueError, [])\<rparr>)"

definition sample_fc :: "pydict fritzconnection" where
  "sample_fc =
     \<lparr>call_action = sample_router, address = ''http://192.168.178.1'', port = 49000,
      session_get = sample_session\<rparr>"

subsection \<open>Arguments of the wake-on-LAN tool\<close>

definition by_mac :: wol_args where
  "by_mac = \<lparr>device_mac_address = Some ''C0:FF:EE:C0:FF:EE'', device_ip_address = None,
             device_name = None\<rparr>"

definition by_ip :: "string \<Rightarrow> wol_args" where
  "by_ip ip = \<lparr>device_mac_address = None, device_ip_address = Some ip, device_name = None\<rparr>"

definition by_name :: "string \<Rightarrow> wol_args" where
  "by_name name = \<lparr>device_mac_address = None, device_ip_address = None, device_name = Some name\<rparr>"

section \<open>Properties of the call-forwarding parser\<close>

subsection \<open>One \<open>Item\<close>\<close>

lemma read_item_wellformed:
  "(\<exists>l. read_item py_int el = Inr l) \<longleftrightarrow> item_wellformed py_int el"
  by (auto simp: read_item_def item_wellformed_def item_tags_def child_text_def int_of_text_def
      split: sum.splits option.splits)

lemma read_item_error_class:
  "read_item py_int el = Inl e \<Longrightarrow> fst e \<in> {AttributeError, TypeError, ValueError}"
  by (auto simp: read_item_def child_text_def int_of_text_def
      split: sum.splits option.splits)

lemma read_item_to_number:
  "read_item py_int el = Inr l \<Longrightarrow> child_text el ''DeflectionToNumber'' = Inr (to_number_of l)"
  by (auto simp: read_item_def split: sum.splits)

lemma read_item_enabled:
  "read_item py_int el = Inr l \<Longrightarrow>
   \<exists>s. child_text el ''Enable'' = Inr (Some s) \<and> py_int s = Some (enabled_of l)"
  by (auto simp: read_item_def int_of_text_def split: sum.splits option.splits)

lemma call_forwarding_enabled:
  "getitem (call_forwarding l) ''enabled'' = Inr (PyInt (enabled_of l))"
  by (cases l) (simp add: getitem_def)

subsection \<open>The loop\<close>

lemma parse_items_all_read:
  "map (read_item py_int) items = map Inr ls \<Longrightarrow>
   parse_items py_int fb items acc =
     Inr (acc @ map call_forwarding (filter (\<lambda>l. fb \<longrightarrow> to_number_of l \<noteq> None) ls))"
proof (induction items arbitrary: ls acc)
  case Nil
  then show ?case by simp
next
  case (Cons el items)
  then obtain l ls' where ls: "ls = l # ls'" and l: "read_item py_int el = Inr l"
    and rest: "map (read_item py_int) items = map Inr ls'"
    by (cases ls) auto
  show ?case
    using Cons.IH [OF rest] by (cases fb) (simp_all add: ls l)
qed

lemma parse_items_returns:
  "(\<exists>rs. parse_items py_int fb items acc = Inr rs) \<longleftrightarrow> list_all (item_wellformed py_int) items"
proof (induction items arbitrary: acc)
  case Nil
  then show ?case by simp
next
  case (Cons el items)
  show ?case
  proof (cases "read_item py_int el")
    case (Inl e)
    then have "\<not> item_wellformed py_int el"
      using read_item_wellformed [of py_int el] by auto
    with Inl show ?thesis by simp
  next
    case (Inr l)
    then have "item_wellformed py_int el"
      using read_item_wellformed [of py_int el] by blast
    with Inr Cons.IH show ?thesis by (cases fb) simp_all
  qed
qed

lemma parse_items_error_class:
  "parse_items py_int fb items acc = Inl e \<Longrightarrow> fst e \<in> {AttributeError, TypeError, ValueError}"
proof (induction items arbitrary: acc)
  case Nil
  then show ?case by simp
next
  case (Cons el items)
  then show ?case
    by (auto split: sum.splits if_splits dest: read_item_error_class)
qed

lemma all_items_read:
  "list_all (item_wellformed py_int) items \<Longrightarrow> \<exists>ls. map (read_item py_int) items = map Inr ls"
proof (induction items)
  case Nil
  then show ?case by simp
next
  case (Cons el items)
  then obtain ls where ls: "map (read_item py_int) items = map Inr ls" by auto
  from Cons.prems obtain l where "read_item py_int el = Inr l"
    using read_item_wellformed [of py_int el] by auto
  with ls have "map (read_item py_int) (el # items) = map Inr (l # ls)" by simp
  then show ?case by blast
qed

subsection \<open>The sample documents\<close>

lemma int_decimal_samples:
  "int_decimal ''0'' = Some 0" "int_decimal ''1'' = Some 1" "int_decimal ''2'' = Some 2"
  by (simp_all add: int_decimal_def)

lemma sample_blob_neq: "broken_blob \<noteq> sample_blob"
  by (simp add: broken_blob_def sample_blob_def)

lemma sample_parsed: "sample_fromstring sample_blob = Inr sample_root"
  by (simp add: sample_fromstring_def)

lemma broken_parsed: "sample_fromstring broken_blob = Inr broken_root"
  by (simp add: sample_fromstring_def sample_blob_neq)

lemma sample_items:
  "findall ''Item'' sample_root =
     [deflection_item ''0'' ''1'' (Some ''0307777''), deflection_item ''1'' ''0'' None,
      deflection_item ''2'' ''2'' (Some ''0308888'')]"
  by (simp add: findall_def sample_root_def deflection_item_def)

lemma read_deflection_item:
  "int_decimal enable = Some n \<Longrightarrow>
   read_item int_decimal (deflection_item uid enable to_number)
     = Inr (Some uid, n, Some ''fromNumber'', Some ''0301234'', to_number)"
  by (simp add: read_item_def deflection_item_def child_text_def find_el_def int_of_text_def)

lemma deflection_item_wellformed:
  "int_decimal enable = Some n \<Longrightarrow> item_wellformed int_decimal (deflection_item uid enable to_number)"
  using read_item_wellformed [of int_decimal "deflection_item uid enable to_number"]
  by (simp add: read_deflection_item)

lemma sample_parse_filtered:
  "parse_call_forwarding_list sample_fromstring int_decimal sample_blob True
     = Inr [sample_record ''0'' 1 (PyStr ''0307777''), sample_record ''2'' 2 (PyStr ''0308888'')]"
  by (simp add: parse_call_forwarding_list_def sample_parsed sample_items
      read_deflection_item int_decimal_samples sample_record_def text_value_def)

subsection \<open>Three rules, one of them blocked\<close>

text \<open>
  Claim C2, as the code has it. Let the root of the parsed document have exactly the
  three \<open>Item\<close> children \<open>a\<close>, \<open>b\<close>, \<open>c\<close> (in document order), each carrying the five
  children \<open>DeflectionId\<close>, \<open>Enable\<close>, \<open>Type\<close>, \<open>Number\<close>, \<open>DeflectionToNumber\<close> with an
  \<open>Enable\<close> text that \<open>int()\<close> reads, and let exactly one of them have a
  \<open>DeflectionToNumber\<close> without text. Then \<open>parse_call_forwarding_list\<close> returns the
  three records of \<open>a\<close>, \<open>b\<close>, \<open>c\<close> in this order when \<open>filter_blocked\<close> is false, and
  when it is true the same list without the records whose \<open>to_number\<close> is \<open>None\<close>,
  which are two records.
\<close>

theorem parse_three_items:
  assumes "fromstring blob = Inr root"
    and "findall ''Item'' root = [a, b, c]"
    and "list_all (item_wellformed py_int) [a, b, c]"
    and "length (filter (\<lambda>el. child_text el ''DeflectionToNumber'' = Inr None) [a, b, c]) = 1"
  shows "\<exists>la lb lc.
           map (read_item py_int) [a, b, c] = map Inr [la, lb, lc] \<and>
           parse_call_forwarding_list fromstring py_int blob False
             = Inr (map call_forwarding [la, lb, lc]) \<and>
           parse_call_forwarding_list fromstring py_int blob True
             = Inr (map call_forwarding (filter (\<lambda>l. to_number_of l \<noteq> None) [la, lb, lc])) \<and>
           length (filter (\<lambda>l. to_number_of l \<noteq> None) [la, lb, lc]) = 2"
proof -
  from all_items_read [OF assms(3)] obtain ls
    where ls: "map (read_item py_int) [a, b, c] = map Inr ls" by blast
  then have "length ls = 3"
    by (metis length_map length_Cons list.size(3) numeral_3_eq_3)
  then obtain la lb lc where abc: "ls = [la, lb, lc]"
    by (cases ls; cases "tl ls"; cases "tl (tl ls)") auto
  have ra: "read_item py_int a = Inr la" and rb: "read_item py_int b = Inr lb"
    and rc: "read_item py_int c = Inr lc"
    using ls abc by auto
  have ta: "child_text a ''DeflectionToNumber'' = Inr (to_number_of la)"
    and tb: "child_text b ''DeflectionToNumber'' = Inr (to_number_of lb)"
    and tc: "child_text c ''DeflectionToNumber'' = Inr (to_number_of lc)"
    using ra rb rc by (auto dest: read_item_to_number)
  have two: "length (filter (\<lambda>l. to_number_of l \<noteq> None) [la, lb, lc]) = 2"
    using assms(4) by (auto simp: ta tb tc split: if_splits)
  have f: "parse_call_forwarding_list fromstring py_int blob False
             = Inr (map call_forwarding [la, lb, lc])"
    using parse_items_all_read [of py_int "[a, b, c]" "[la, lb, lc]" False "[]"] ls abc
    by (simp add: parse_call_forwarding_list_def assms(1,2))
  have t: "parse_call_forwarding_list fromstring py_int blob True
             = Inr (map call_forwarding (filter (\<lambda>l. to_number_of l \<noteq> None) [la, lb, lc]))"
    using parse_items_all_read [of py_int "[a, b, c]" "[la, lb, lc]" True "[]"] ls abc
    by (simp add: parse_call_forwarding_list_def assms(1,2))
  from ls abc f t two show ?thesis by blast
qed

text \<open>The sample document: three records without the filter, the first and third with it.\<close>

theorem parse_three_items_witness:
  "parse_call_forwarding_list sample_fromstring int_decimal sample_blob False
     = Inr [sample_record ''0'' 1 (PyStr ''0307777''), sample_record ''1'' 0 PyNone,
            sample_record ''2'' 2 (PyStr ''0308888'')] \<and>
   parse_call_forwarding_list sample_fromstring int_decimal sample_blob True
     = Inr [sample_record ''0'' 1 (PyStr ''0307777''), sample_record ''2'' 2 (PyStr ''0308888'')]"
proof -
  have h3: "list_all (item_wellformed int_decimal)
              [deflection_item ''0'' ''1'' (Some ''0307777''), deflection_item ''1'' ''0'' None,
               deflection_item ''2'' ''2'' (Some ''0308888'')]"
    by (simp add: deflection_item_wellformed int_decimal_samples)
  have h4: "length (filter (\<lambda>el. child_text el ''DeflectionToNumber'' = Inr None)
              [deflection_item ''0'' ''1'' (Some ''0307777''), deflection_item ''1'' ''0'' None,
               deflection_item ''2'' ''2'' (Some ''0308888'')]) = 1"
    by (simp add: child_text_def find_el_def deflection_item_def)
  from parse_three_items [where fromstring = sample_fromstring and blob = sample_blob,
      OF sample_parsed sample_items h3 h4]
  show ?thesis
    by (auto simp: read_deflection_item int_decimal_samples sample_record_def text_value_def)
qed

text \<open>
  Without the condition on the children the claim fails: the root of this document has
  three \<open>Item\<close> children, exactly one of them (the second) with a \<open>DeflectionToNumber\<close>
  without text, and the third has no \<open>Type\<close> child. With the filter and without it the
  parser raises the \<open>AttributeError\<close> of line 100 and returns no record.
\<close>

theorem parse_three_items_counterexample:
  "typeless_fromstring typeless_blob = Inr typeless_root \<and>
   findall ''Item'' typeless_root =
     [deflection_item ''0'' ''1'' (Some ''0307777''), deflection_item ''1'' ''0'' None,
      typeless_item] \<and>
   child_text (deflection_item ''0'' ''1'' (Some ''0307777'')) ''DeflectionToNumber''
     = Inr (Some ''0307777'') \<and>
   child_text (deflection_item ''1'' ''0'' None) ''DeflectionToNumber'' = Inr None \<and>
   child_text typeless_item ''DeflectionToNumber'' = Inr (Some ''0308888'') \<and>
   parse_call_forwarding_list typeless_fromstring int_decimal typeless_blob True
     = Inl (AttributeError, ''text'') \<and>
   parse_call_forwarding_list typeless_fromstring int_decimal typeless_blob False
     = Inl (AttributeError, ''text'')"
proof -
  have p: "typeless_fromstring typeless_blob = Inr typeless_root"
    by (simp add: typeless_fromstring_def)
  have i: "findall ''Item'' typeless_root =
     [deflection_item ''0'' ''1'' (Some ''0307777''), deflection_item ''1'' ''0'' None,
      typeless_item]"
    by (simp add: findall_def typeless_root_def deflection_item_def typeless_item_def)
  have t: "child_text (deflection_item ''0'' ''1'' (Some ''0307777'')) ''DeflectionToNumber''
             = Inr (Some ''0307777'')"
    "child_text (deflection_item ''1'' ''0'' None) ''DeflectionToNumber'' = Inr None"
    "child_text typeless_item ''DeflectionToNumber'' = Inr (Some ''0308888'')"
    by (simp_all add: child_text_def find_el_def deflection_item_def typeless_item_def)
  have r: "read_item int_decimal typeless_item = Inl (AttributeError, ''text'')"
    by (simp add: read_item_def child_text_def find_el_def typeless_item_def int_of_text_def
        int_decimal_samples)
  have "parse_call_forwarding_list typeless_fromstring int_decimal typeless_blob fb
          = Inl (AttributeError, ''text'')" for fb
    by (cases fb)
       (simp_all add: parse_call_forwarding_list_def p i read_deflection_item
          int_decimal_samples r)
  with p i t show ?thesis by simp
qed

subsection \<open>The \<open>enabled\<close> field\<close>

text \<open>
  Claim C6, as the code has it. Every record \<open>parse_call_forwarding_list\<close> returns
  belongs to one \<open>Item\<close> of the document (to each \<open>Item\<close> in document order, or with
  \<open>filter_blocked\<close> to each whose \<open>DeflectionToNumber\<close> has a text), and its \<open>enabled\<close>
  field is the integer \<open>int()\<close> reads from the text of that Item's \<open>Enable\<close> child:
  an integer, which no step turns into a boolean.
\<close>

theorem enabled_is_integer:
  assumes "fromstring blob = Inr root"
    and "parse_call_forwarding_list fromstring py_int blob fb = Inr rs"
  shows "list_all2
           (\<lambda>el r. \<exists>s n. child_text el ''Enable'' = Inr (Some s) \<and> py_int s = Some n \<and>
                          getitem r ''enabled'' = Inr (PyInt n))
           (filter (\<lambda>el. fb \<longrightarrow> child_text el ''DeflectionToNumber'' \<noteq> Inr None)
              (findall ''Item'' root))
           rs"
proof -
  let ?items = "findall ''Item'' root"
  have p: "parse_items py_int fb ?items [] = Inr rs"
    using assms by (simp add: parse_call_forwarding_list_def)
  then have "list_all (item_wellformed py_int) ?items"
    using parse_items_returns [of py_int fb ?items "[]"] by auto
  then obtain ls where ls: "map (read_item py_int) ?items = map Inr ls"
    using all_items_read by blast
  have rs: "rs = map call_forwarding (filter (\<lambda>l. fb \<longrightarrow> to_number_of l \<noteq> None) ls)"
    using parse_items_all_read [OF ls, of fb "[]"] p by simp
  have "map (read_item py_int) xs = map Inr ys \<Longrightarrow>
        list_all2 (\<lambda>el l. read_item py_int el = Inr l) xs ys" for xs ys
    by (induction xs arbitrary: ys) auto
  from this [OF ls] have rel: "list_all2 (\<lambda>el l. read_item py_int el = Inr l) ?items ls" .
  have "list_all2 (\<lambda>el l. read_item py_int el = Inr l) items ls \<Longrightarrow>
        list_all2
           (\<lambda>el r. \<exists>s n. child_text el ''Enable'' = Inr (Some s) \<and> py_int s = Some n \<and>
                          getitem r ''enabled'' = Inr (PyInt n))
           (filter (\<lambda>el. fb \<longrightarrow> child_text el ''DeflectionToNumber'' \<noteq> Inr None) items)
           (map call_forwarding (filter (\<lambda>l. fb \<longrightarrow> to_number_of l \<noteq> None) ls))" for items ls
  proof (induction items ls rule: list_all2_induct)
    case Nil
    then show ?case by simp
  next
    case (Cons el items l ls)
    from read_item_enabled [OF Cons.hyps(1)] obtain s
      where "child_text el ''Enable'' = Inr (Some s)" "py_int s = Some (enabled_of l)" by blast
    then show ?case
      using Cons.IH read_item_to_number [OF Cons.hyps(1)]
      by (auto simp: call_forwarding_enabled)
  qed
  from this [OF rel] show ?thesis by (simp add: rs)
qed

text \<open>
  The sample document with the filter: the two records belong to the first and the
  third \<open>Item\<close>, and their \<open>enabled\<close> fields are the integers of the texts 1 and 2.
\<close>

theorem enabled_is_integer_witness:
  "list_all2
     (\<lambda>el r. \<exists>s n. child_text el ''Enable'' = Inr (Some s) \<and> int_decimal s = Some n \<and>
                    getitem r ''enabled'' = Inr (PyInt n))
     [deflection_item ''0'' ''1'' (Some ''0307777''), deflection_item ''2'' ''2'' (Some ''0308888'')]
     [sample_record ''0'' 1 (PyStr ''0307777''), sample_record ''2'' 2 (PyStr ''0308888'')]"
proof -
  have f: "filter (\<lambda>el. True \<longrightarrow> child_text el ''DeflectionToNumber'' \<noteq> Inr None)
             (findall ''Item'' sample_root)
           = [deflection_item ''0'' ''1'' (Some ''0307777''), deflection_item ''2'' ''2'' (Some ''0308888'')]"
    by (simp add: sample_items child_text_def find_el_def deflection_item_def)
  from enabled_is_integer [where fromstring = sample_fromstring and blob = sample_blob,
      OF sample_parsed sample_parse_filtered]
  show ?thesis
    unfolding f .
qed

text \<open>
  The claim as the spec words it fails on the sample document: the record of the third
  rule has the \<open>enabled\<close> field 2, an integer and not a boolean.
\<close>

theorem enabled_is_boolean_counterexample:
  "parse_call_forwarding_list sample_fromstring int_decimal sample_blob True
     = Inr [sample_record ''0'' 1 (PyStr ''0307777''), sample_record ''2'' 2 (PyStr ''0308888'')] \<and>
   getitem (sample_record ''2'' 2 (PyStr ''0308888'')) ''enabled'' = Inr (PyInt 2) \<and>
   \<not> is_bool (PyInt 2)"
  by (simp add: parse_call_forwarding_list_def sample_parsed sample_items
      read_deflection_item int_decimal_samples sample_record_def text_value_def getitem_def
      is_bool_def)

subsection \<open>Partiality\<close>

text \<open>
  Claim C10. On a document the XML parser accepts, \<open>parse_call_forwarding_list\<close>
  returns a list exactly when every \<open>Item\<close> of the root carries all five children and an
  \<open>Enable\<close> text that \<open>int()\<close> reads; otherwise it raises, and what it raises is the
  \<open>AttributeError\<close> of reading \<open>.text\<close> of a missing child or the \<open>TypeError\<close> or
  \<open>ValueError\<close> of \<open>int()\<close>. No \<open>Item\<close> is skipped and no partial list is returned.
\<close>

theorem parse_call_forwarding_list_partial:
  assumes "fromstring blob = Inr root"
  shows "(case parse_call_forwarding_list fromstring py_int blob fb of
            Inr rs \<Rightarrow> list_all (item_wellformed py_int) (findall ''Item'' root)
          | Inl e \<Rightarrow> \<not> list_all (item_wellformed py_int) (findall ''Item'' root) \<and>
                     fst e \<in> {AttributeError, TypeError, ValueError})"
proof (cases "parse_items py_int fb (findall ''Item'' root) []")
  case (Inl e)
  then have "\<not> list_all (item_wellformed py_int) (findall ''Item'' root)"
    using parse_items_returns [of py_int fb "findall ''Item'' root" "[]"] by auto
  moreover have "fst e \<in> {AttributeError, TypeError, ValueError}"
    using Inl by (rule parse_items_error_class)
  ultimately show ?thesis
    using Inl by (simp add: parse_call_forwarding_list_def assms)
next
  case (Inr rs)
  then have "list_all (item_wellformed py_int) (findall ''Item'' root)"
    using parse_items_returns [of py_int fb "findall ''Item'' root" "[]"] by auto
  then show ?thesis
    using Inr by (simp add: parse_call_forwarding_list_def assms)
qed

text \<open>
  The document whose second rule has no \<open>Enable\<close> child: the parser raises
  \<open>AttributeError\<close>, although the first rule is complete.
\<close>

theorem parse_call_forwarding_list_partial_witness:
  "parse_call_forwarding_list sample_fromstring int_decimal broken_blob True
     = Inl (AttributeError, ''text'') \<and>
   \<not> list_all (item_wellformed int_decimal) (findall ''Item'' broken_root)"
proof -
  have r: "parse_call_forwarding_list sample_fromstring int_decimal broken_blob True
     = Inl (AttributeError, ''text'')"
    by (simp add: parse_call_forwarding_list_def broken_parsed findall_def broken_root_def
        read_deflection_item int_decimal_samples)
       (simp add: read_item_def child_text_def find_el_def)
  from parse_call_forwarding_list_partial [where fromstring = sample_fromstring
      and blob = broken_blob, OF broken_parsed, of int_decimal True] r
  show ?thesis by simp
qed

section \<open>Properties of the host enumeration\<close>

subsection \<open>The router's answers\<close>

lemma get_generic_host_entry_eq:
  "get_generic_host_entry fc (int i) lg = (entry_answer fc i, lg @ [entry_call i])"
  by (simp add: get_generic_host_entry_def action_def entry_answer_def entry_call_def)

lemma next_entry_eq:
  "next_entry fc (Next_index i) lg =
     (case entry_answer fc i of
        Inr entry \<Rightarrow> ((Yield entry, Next_index (Suc i)), lg @ [entry_call i])
      | Inl e \<Rightarrow> if isinstance e IndexError then ((StopIteration, Ended), lg @ [entry_call i])
                  else ((Raised e, Ended), lg @ [entry_call i]))"
  by (simp add: get_generic_host_entry_eq split: sum.splits)

lemma answers_nth:
  assumes "map (entry_answer fc) [0..<n] = map Inr ys" and "j < n"
  shows "entry_answer fc j = Inr (ys ! j)"
proof -
  from assms(1) have n: "length ys = n"
    by (metis length_map length_upt diff_zero)
  have "map (entry_answer fc) [0..<n] ! j = map Inr ys ! j"
    by (simp only: assms(1))
  with assms(2) n show ?thesis by simp
qed

lemma known_hosts_nth:
  "known_hosts fc entries \<Longrightarrow> i < length entries \<Longrightarrow> entry_answer fc i = Inr (entries ! i)"
  by (rule answers_nth [of fc "length entries"]) (simp_all add: known_hosts_def)

lemma known_hosts_end:
  "known_hosts fc entries \<Longrightarrow> \<exists>e. entry_answer fc (length entries) = Inl e \<and> isinstance e IndexError"
  by (auto simp: known_hosts_def split: sum.splits)

lemma sample_known_hosts: "known_hosts sample_fc sample_hosts"
  by (simp add: known_hosts_def entry_answer_def sample_fc_def sample_router_def SERVICE_def
      sample_hosts_def upt_rec isinstance_def)

subsection \<open>The generator\<close>

lemma take_steps_from:
  assumes "known_hosts fc entries"
  shows "i \<le> length entries \<Longrightarrow>
         take_steps fc (Suc (length entries - i)) (Next_index i) lg =
           ((map Yield (drop i entries) @ [StopIteration], Ended),
            lg @ map entry_call [i..<Suc (length entries)])"
proof (induction "length entries - i" arbitrary: i lg)
  case 0
  then have i: "i = length entries" by simp
  from known_hosts_end [OF assms] obtain e
    where e: "entry_answer fc (length entries) = Inl e" "isinstance e IndexError" by blast
  show ?case
    by (simp add: i get_generic_host_entry_eq e)
next
  case (Suc k)
  then have lt: "i < length entries" and k: "k = length entries - Suc i" by simp_all
  have a: "entry_answer fc i = Inr (entries ! i)"
    using known_hosts_nth [OF assms lt] .
  have s: "Suc (length entries - i) = Suc (Suc (length entries - Suc i))"
    using lt by simp
  have d: "drop i entries = entries ! i # drop (Suc i) entries"
    using lt by (simp add: Cons_nth_drop_Suc)
  have u: "[i..<Suc (length entries)] = i # [Suc i..<Suc (length entries)]"
    using lt by (simp add: upt_conv_Cons)
  have ih: "take_steps fc (Suc (length entries - Suc i)) (Next_index (Suc i)) (lg @ [entry_call i]) =
           ((map Yield (drop (Suc i) entries) @ [StopIteration], Ended),
            (lg @ [entry_call i]) @ map entry_call [Suc i..<Suc (length entries)])"
    using Suc.hyps(1) [OF k] lt by simp
  show ?case
    unfolding s take_steps.simps(2) [of fc "Suc (length entries - Suc i)"]
    by (simp add: get_generic_host_entry_eq a ih d u del: take_steps.simps upt_Suc)
qed

text \<open>
  Claim C1. On a router that knows \<open>n\<close> hosts (it answers the indices \<open>0 .. n - 1\<close>
  with their entries and the index \<open>n\<close> with an \<open>IndexError\<close>), the first \<open>n + 1\<close>
  steps of the generator \<open>get_generic_host_entries()\<close> yield the \<open>n\<close> entries in index
  order and then stop: the \<open>IndexError\<close> at index \<open>n\<close> becomes the end of the sequence
  and is not raised. The router is asked for the indices \<open>0, 1, ..., n\<close>, once each. A
  generator made after the first one has run enumerates the same entries again, from
  index 0.
\<close>

theorem enumeration_yields_all:
  assumes "known_hosts fc entries"
  shows "take_steps fc (Suc (length entries)) (get_generic_host_entries fc) lg =
           ((map Yield entries @ [StopIteration], Ended),
            lg @ map entry_call [0..<Suc (length entries)]) \<and>
         fst (take_steps fc (Suc (length entries)) (get_generic_host_entries fc)
                (snd (take_steps fc (Suc (length entries)) (get_generic_host_entries fc) lg))) =
           (map Yield entries @ [StopIteration], Ended)"
proof -
  have "take_steps fc (Suc (length entries)) (get_generic_host_entries fc) lg' =
           ((map Yield entries @ [StopIteration], Ended),
            lg' @ map entry_call [0..<Suc (length entries)])" for lg'
    using take_steps_from [OF assms, of 0 lg']
    by (simp add: get_generic_host_entries_def del: take_steps.simps upt_Suc)
  then show ?thesis by (simp del: take_steps.simps upt_Suc)
qed

text \<open>The router with two hosts: two entries, then the end, after the calls 0, 1, 2.\<close>

theorem enumeration_yields_all_witness:
  "take_steps sample_fc 3 (get_generic_host_entries sample_fc) []
     = (([Yield otherhost, Yield thishost, StopIteration], Ended),
        [entry_call 0, entry_call 1, entry_call 2])"
  using enumeration_yields_all [OF sample_known_hosts, of "[]"]
  by (simp add: sample_hosts_def upt_rec numeral_3_eq_3 numeral_2_eq_2 del: take_steps.simps)

subsection \<open>The status of one host\<close>



subsection \<open>The records of \<open>get_hosts_info\<close>\<close>

lemma host_info_complete:
  "(\<exists>info. host_info d = Inr info) \<longleftrightarrow> complete_entry d"
  by (auto simp: host_info_def complete_entry_def vendor_keys_def getitem_def
      split: sum.splits option.splits)

lemma host_info_error:
  "host_info d = Inl e \<Longrightarrow> isinstance e KeyError"
  by (auto simp: host_info_def getitem_def isinstance_def split: sum.splits option.splits)

lemma host_info_record:
  "host_info d = Inr info \<Longrightarrow>
   map fst info = canonical_keys \<and> map (map_of info) canonical_keys = map (map_of d) vendor_keys"
  by (auto simp: host_info_def getitem_def canonical_keys_def vendor_keys_def
      split: sum.splits option.splits)

lemma hosts_info_loop_all:
  "\<forall>j<length xs. entry_answer fc (i + j) = Inr (xs ! j) \<Longrightarrow>
   entry_answer fc (i + length xs) = Inl e \<Longrightarrow> isinstance e IndexError \<Longrightarrow>
   map host_info xs = map Inr infos \<Longrightarrow>
   hosts_info_loop fc i result lg =
     Some (Inr (result @ infos), lg @ map entry_call [i..<Suc (i + length xs)])"
proof (induction xs arbitrary: i result lg infos)
  case Nil
  then show ?case
    by (subst hosts_info_loop.simps) (simp add: get_generic_host_entry_eq)
next
  case (Cons x xs)
  from Cons.prems(4) obtain info infos' where infos: "infos = info # infos'"
    and info: "host_info x = Inr info" and rest: "map host_info xs = map Inr infos'"
    by (cases infos) auto
  have x: "entry_answer fc i = Inr x"
    using Cons.prems(1) by force
  have xs: "\<forall>j<length xs. entry_answer fc (Suc i + j) = Inr (xs ! j)"
    using Cons.prems(1) by force
  have e: "entry_answer fc (Suc i + length xs) = Inl e"
    using Cons.prems(2) by simp
  have u: "[i..<Suc (Suc (i + length xs))] = i # [Suc i..<Suc (Suc (i + length xs))]"
    by (simp add: upt_conv_Cons del: upt_Suc)
  show ?case
    by (subst hosts_info_loop.simps)
       (simp add: get_generic_host_entry_eq x info infos u
          Cons.IH [OF xs e Cons.prems(3) rest] del: upt_Suc)
qed

lemma hosts_info_loop_key_error:
  "\<forall>j<length xs. entry_answer fc (i + j) = Inr (xs ! j) \<Longrightarrow>
   map host_info xs = map Inr infos \<Longrightarrow>
   entry_answer fc (i + length xs) = Inr d \<Longrightarrow> host_info d = Inl e \<Longrightarrow>
   hosts_info_loop fc i result lg =
     Some (Inl e, lg @ map entry_call [i..<Suc (i + length xs)])"
proof (induction xs arbitrary: i result lg infos)
  case Nil
  then show ?case
    by (subst hosts_info_loop.simps) (simp add: get_generic_host_entry_eq)
next
  case (Cons x xs)
  from Cons.prems(2) obtain info infos' where infos: "infos = info # infos'"
    and info: "host_info x = Inr info" and rest: "map host_info xs = map Inr infos'"
    by (cases infos) auto
  have x: "entry_answer fc i = Inr x"
    using Cons.prems(1) by force
  have xs: "\<forall>j<length xs. entry_answer fc (Suc i + j) = Inr (xs ! j)"
    using Cons.prems(1) by force
  have d: "entry_answer fc (Suc i + length xs) = Inr d"
    using Cons.prems(3) by simp
  have u: "[i..<Suc (Suc (i + length xs))] = i # [Suc i..<Suc (Suc (i + length xs))]"
    by (simp add: upt_conv_Cons del: upt_Suc)
  show ?case
    by (subst hosts_info_loop.simps)
       (simp add: get_generic_host_entry_eq x info u
          Cons.IH [OF xs rest d Cons.prems(4)] del: upt_Suc)
qed

lemma all_infos:
  "list_all complete_entry xs \<Longrightarrow> \<exists>infos. map host_info xs = map Inr infos"
proof (induction xs)
  case Nil
  then show ?case by simp
next
  case (Cons x xs)
  then obtain infos where "map host_info xs = map Inr infos" by auto
  moreover from Cons.prems obtain info where "host_info x = Inr info"
    using host_info_complete [of x] by auto
  ultimately have "map host_info (x # xs) = map Inr (info # infos)" by simp
  then show ?case by blast
qed

lemma first_incomplete:
  "\<not> list_all complete_entry xs \<Longrightarrow>
   \<exists>pre d post. xs = pre @ d # post \<and> list_all complete_entry pre \<and> \<not> complete_entry d"
proof (induction xs)
  case Nil
  then show ?case by simp
next
  case (Cons x xs)
  show ?case
  proof (cases "complete_entry x")
    case False
    then have "x # xs = [] @ x # xs \<and> list_all complete_entry [] \<and> \<not> complete_entry x" by simp
    then show ?thesis by blast
  next
    case True
    with Cons obtain pre d post
      where "xs = pre @ d # post" "list_all complete_entry pre" "\<not> complete_entry d" by auto
    with True have "x # xs = (x # pre) @ d # post \<and> list_all complete_entry (x # pre) \<and> \<not> complete_entry d"
      by simp
    then show ?thesis by blast
  qed
qed

lemma infos_records:
  "map host_info xs = map Inr infos \<Longrightarrow>
   list_all2 (\<lambda>d h. map fst h = canonical_keys \<and>
                     map (map_of h) canonical_keys = map (map_of d) vendor_keys) xs infos"
proof (induction xs arbitrary: infos)
  case Nil
  then show ?case by simp
next
  case (Cons x xs)
  then obtain info infos' where "infos = info # infos'" "host_info x = Inr info"
    "map host_info xs = map Inr infos'"
    by (cases infos) auto
  with Cons.IH show ?case
    using host_info_record [of x info] by simp
qed

text \<open>
  Claim C4. On a router that knows the hosts \<open>entries\<close>, \<open>get_hosts_info()\<close> returns,
  and what it returns is a list with one record for each raw entry, in the order of the
  enumeration; the keys of each record are exactly the seven canonical keys \<open>ip\<close>,
  \<open>name\<close>, \<open>mac\<close>, \<open>status\<close>, \<open>interface_type\<close>, \<open>address_source\<close>,
  \<open>lease_time_remaining\<close>, and their values are those of the vendor-named fields
  \<open>NewIPAddress\<close>, \<open>NewHostName\<close>, \<open>NewMACAddress\<close>, \<open>NewActive\<close>,
  \<open>NewInterfaceType\<close>, \<open>NewAddressSource\<close>, \<open>NewLeaseTimeRemaining\<close> of the raw entry.
  The only other outcome is the \<open>KeyError\<close> of a raw entry that lacks one of these
  fields, and then no record is returned.
\<close>

theorem get_hosts_info_records:
  assumes "known_hosts fc entries"
  shows "\<exists>res lg'. get_hosts_info fc lg = Some (res, lg') \<and>
           (case res of
              Inr hosts \<Rightarrow>
                lg' = lg @ map entry_call [0..<Suc (length entries)] \<and>
                list_all2 (\<lambda>d h. map fst h = canonical_keys \<and>
                                  map (map_of h) canonical_keys = map (map_of d) vendor_keys)
                  entries hosts
            | Inl e \<Rightarrow> isinstance e KeyError \<and> \<not> list_all complete_entry entries)"
proof (cases "list_all complete_entry entries")
  case True
  then obtain infos where infos: "map host_info entries = map Inr infos"
    using all_infos by blast
  from known_hosts_end [OF assms] obtain e
    where e: "entry_answer fc (length entries) = Inl e" "isinstance e IndexError" by blast
  have "\<forall>j<length entries. entry_answer fc (0 + j) = Inr (entries ! j)"
    using known_hosts_nth [OF assms] by simp
  from hosts_info_loop_all [OF this _ e(2) infos, of "[]" lg] e(1)
  have "get_hosts_info fc lg = Some (Inr infos, lg @ map entry_call [0..<Suc (length entries)])"
    by (simp add: get_hosts_info_def del: upt_Suc)
  then show ?thesis
    using infos_records [OF infos] by simp
next
  case False
  from first_incomplete [OF False] obtain pre d post
    where split: "entries = pre @ d # post" and pre: "list_all complete_entry pre"
      and d: "\<not> complete_entry d" by blast
  from pre obtain infos where infos: "map host_info pre = map Inr infos"
    using all_infos by blast
  from d obtain e where e: "host_info d = Inl e"
    using host_info_complete [of d] by (cases "host_info d") auto
  have a: "\<forall>j<length pre. entry_answer fc (0 + j) = Inr (pre ! j)"
    using known_hosts_nth [OF assms] by (simp add: split nth_append)
  have b: "entry_answer fc (0 + length pre) = Inr d"
    using known_hosts_nth [OF assms, of "length pre"] by (simp add: split)
  from hosts_info_loop_key_error [OF a infos b e, of "[]" lg]
  have "get_hosts_info fc lg = Some (Inl e, lg @ map entry_call [0..<Suc (length pre)])"
    by (simp add: get_hosts_info_def del: upt_Suc)
  then show ?thesis
    using host_info_error [OF e] False by simp
qed

lemma host_info_sample:
  "host_info (sample_entry ip name mac active) = Inr (sample_info ip name mac active)"
  by (simp add: host_info_def sample_entry_def sample_info_def getitem_def)

lemma sample_hosts_info:
  "get_hosts_info sample_fc [] =
     Some (Inr [otherhost_info, thishost_info], [entry_call 0, entry_call 1, entry_call 2])"
proof -
  have a: "\<forall>j<length sample_hosts. entry_answer sample_fc (0 + j) = Inr (sample_hosts ! j)"
    using known_hosts_nth [OF sample_known_hosts] by simp
  from known_hosts_end [OF sample_known_hosts] obtain e
    where e: "entry_answer sample_fc (0 + length sample_hosts) = Inl e" "isinstance e IndexError"
    by auto
  have i: "map host_info sample_hosts = map Inr [otherhost_info, thishost_info]"
    by (simp add: sample_hosts_def otherhost_def thishost_def otherhost_info_def
        thishost_info_def host_info_sample)
  from hosts_info_loop_all [OF a e i, of "[]" "[]"] show ?thesis
    by (simp add: get_hosts_info_def sample_hosts_def upt_rec numeral_2_eq_2)
qed

text \<open>The router with two hosts: two records, each with the seven canonical keys.\<close>

theorem get_hosts_info_records_witness:
  "get_hosts_info sample_fc [] =
     Some (Inr [otherhost_info, thishost_info], [entry_call 0, entry_call 1, entry_call 2]) \<and>
   list_all2 (\<lambda>d h. map fst h = canonical_keys \<and>
                     map (map_of h) canonical_keys = map (map_of d) vendor_keys)
     [otherhost, thishost] [otherhost_info, thishost_info]"
  using get_hosts_info_records [OF sample_known_hosts, of "[]"]
  by (simp add: sample_hosts_info sample_hosts_def)

subsection \<open>The active hosts\<close>

lemma hosts_info_loop_keys:
  fixes fc :: "'j fritzconnection"
  assumes "hosts_info_loop fc i result lg = Some (Inr hosts, lg')"
    and "list_all (\<lambda>h. map fst h = canonical_keys) result"
  shows "list_all (\<lambda>h. map fst h = canonical_keys) hosts"
proof -
  let ?inv = "\<lambda>(fc :: 'j fritzconnection) (i :: nat) (result :: pydict list) (lg :: log)
                 (y :: (pydict list) result \<times> log).
                \<forall>hosts lg'. y = (Inr hosts, lg') \<longrightarrow>
                  list_all (\<lambda>h. map fst h = canonical_keys) result \<longrightarrow>
                  list_all (\<lambda>h. map fst h = canonical_keys) hosts"
  have "?inv fc i result lg (Inr hosts, lg')"
  proof (rule hosts_info_loop.raw_induct [where P = ?inv, OF _ assms(1)], goal_cases)
    case (1 loop fc i result lg y)
    show ?case
    proof (cases "entry_answer fc i")
      case (Inl e)
      with 1(2) show ?thesis
        by (auto simp: get_generic_host_entry_eq split: if_splits)
    next
      case (Inr host)
      show ?thesis
      proof (cases "host_info host")
        case (Inl e)
        with Inr 1(2) show ?thesis
          by (auto simp: get_generic_host_entry_eq)
      next
        case info: (Inr info)
        with Inr 1(2) have "loop fc (Suc i) (result @ [info]) (lg @ [entry_call i]) = Some y"
          by (simp add: get_generic_host_entry_eq)
        from 1(1) [OF this] host_info_record [OF info] show ?thesis
          by simp
      qed
    qed
  qed
  with assms(2) show ?thesis by simp
qed

lemma get_hosts_info_keys:
  "get_hosts_info fc lg = Some (Inr hosts, lg') \<Longrightarrow> list_all (\<lambda>h. map fst h = canonical_keys) hosts"
  using hosts_info_loop_keys [of fc 0 "[]" lg hosts lg']
  by (simp add: get_hosts_info_def)

lemma active_only_filter:
  "list_all (\<lambda>h. map fst h = canonical_keys) hosts \<Longrightarrow>
   active_only hosts = Inr (filter (\<lambda>h. case status_of h of Some v \<Rightarrow> truthy v | None \<Rightarrow> False) hosts)"
proof (induction hosts)
  case Nil
  then show ?case by simp
next
  case (Cons h hosts)
  then have "map fst h = canonical_keys" by simp
  then have "''status'' \<in> set (map fst h)"
    by (simp add: canonical_keys_def)
  then have "map_of h ''status'' \<noteq> None"
    by (simp add: map_of_eq_None_iff)
  then obtain v where v: "map_of h ''status'' = Some v" by blast
  with Cons show ?case
    by (simp add: getitem_def status_of_def)
qed

lemma filter_bool_status:
  "list_all (\<lambda>h. case status_of h of Some v \<Rightarrow> is_bool v | None \<Rightarrow> False) hosts \<Longrightarrow>
   filter (\<lambda>h. case status_of h of Some v \<Rightarrow> truthy v | None \<Rightarrow> False) hosts
     = filter (\<lambda>h. status_of h = Some (PyBool True)) hosts"
  by (induction hosts) (auto simp: is_bool_def split: option.splits pyval.splits)

text \<open>
  Claim C5. \<open>get_active_hosts()\<close> is \<open>get_hosts_info()\<close> followed by a filter: when
  \<open>get_hosts_info()\<close> returns the list \<open>hosts\<close>, \<open>get_active_hosts()\<close> returns, after
  the same calls, the sublist of \<open>hosts\<close> of those records whose \<open>status\<close> Python takes
  for true, in the same order; where every \<open>status\<close> is a boolean (as the data model
  declares it) these are exactly the records whose \<open>status\<close> is \<open>True\<close>. When
  \<open>get_hosts_info()\<close> raises, \<open>get_active_hosts()\<close> raises the same exception, and when
  it does not return neither does \<open>get_active_hosts()\<close>.
\<close>

theorem get_active_hosts_filters:
  "(case get_hosts_info fc lg of
      None \<Rightarrow> get_active_hosts fc lg = None
    | Some (Inl e, lg') \<Rightarrow> get_active_hosts fc lg = Some (Inl e, lg')
    | Some (Inr hosts, lg') \<Rightarrow>
        get_active_hosts fc lg =
          Some (Inr (filter (\<lambda>h. case status_of h of Some v \<Rightarrow> truthy v | None \<Rightarrow> False) hosts), lg') \<and>
        (list_all (\<lambda>h. case status_of h of Some v \<Rightarrow> is_bool v | None \<Rightarrow> False) hosts \<longrightarrow>
         get_active_hosts fc lg =
           Some (Inr (filter (\<lambda>h. status_of h = Some (PyBool True)) hosts), lg')))"
proof (cases "get_hosts_info fc lg")
  case None
  then show ?thesis by (simp add: get_active_hosts_def)
next
  case (Some y)
  obtain res lg' where y: "y = (res, lg')" by (cases y)
  show ?thesis
  proof (cases res)
    case (Inl e)
    with Some y show ?thesis by (simp add: get_active_hosts_def)
  next
    case (Inr hosts)
    with Some y have h: "get_hosts_info fc lg = Some (Inr hosts, lg')" by simp
    show ?thesis
      using active_only_filter [OF get_hosts_info_keys [OF h]] filter_bool_status [of hosts]
      by (simp add: get_active_hosts_def h)
  qed
qed

text \<open>Of the two hosts of the sample router the second is active.\<close>

theorem get_active_hosts_filters_witness:
  "get_active_hosts sample_fc [] =
     Some (Inr [thishost_info], [entry_call 0, entry_call 1, entry_call 2])"
  using get_active_hosts_filters [of sample_fc "[]"]
  by (simp add: sample_hosts_info status_of_def otherhost_info_def thishost_info_def
      sample_info_def is_bool_def)

subsection \<open>The mesh topology\<close>

lemma str_of_int_samples:
  "str_of_int 49000 = ''49000''" "str_of_int 49443 = ''49443''" "str_of_int 404 = ''404''"
  by (simp_all add: str_of_int_def)

text \<open>
  Claim C9. Let the action \<open>X_AVM-DE_GetMeshListPath\<close> answer with a dict whose
  \<open>NewX_AVM-DE_MeshListPath\<close> is \<open>path\<close>, and let the GET of the URL made of the
  address, the port and the path answer with \<open>response\<close>. Then \<open>get_mesh_topology(raw)\<close>
  makes these two requests in this order and nothing else; it raises \<open>FritzActionError\<close>
  with the status code in its message when the response is not \<open>ok\<close>; and when it is, it
  returns the text of the response if \<open>raw\<close> is true and what \<open>response.json()\<close> gives
  (the parsed value, or the exception of the JSON parser) if \<open>raw\<close> is false.
\<close>

theorem get_mesh_topology_two_steps:
  assumes "call_action fc SERVICE ''X_AVM-DE_GetMeshListPath'' None [] = Inr result"
    and "getitem result ''NewX_AVM-DE_MeshListPath'' = Inr path"
    and "url = address fc @ '':'' @ str_of_int (port fc) @ py_str path"
    and "session_get fc url = Inr response"
  shows "snd (get_mesh_topology fc raw lg) =
           lg @ [Call_action SERVICE ''X_AVM-DE_GetMeshListPath'' None [], Session_get url] \<and>
         (\<not> response_ok response \<longrightarrow>
            fst (get_mesh_topology fc raw lg) =
              Inl (FritzActionError,
                   ''Error '' @ str_of_int (status_code response)
                     @ '': Device has no access to topology information.'')) \<and>
         (response_ok response \<and> raw \<longrightarrow>
            fst (get_mesh_topology fc raw lg) = Inr (Topology_text (response_text response))) \<and>
         (response_ok response \<and> \<not> raw \<longrightarrow>
            fst (get_mesh_topology fc raw lg) = map_sum id Topology_json (response_json response))"
  using assms
  by (auto simp: get_mesh_topology_def action_def Let_def split: sum.splits)

text \<open>
  The sample router serves the mesh list on port 49000: the text with \<open>raw\<close>, the parsed
  value without. On port 49443 the GET answers 404 and \<open>FritzActionError\<close> is raised.
\<close>

theorem get_mesh_topology_two_steps_witness:
  "get_mesh_topology sample_fc True [] =
     (Inr (Topology_text ''{\"schema_version\": \"1.9\"}''),
      [Call_action SERVICE ''X_AVM-DE_GetMeshListPath'' None [],
       Session_get ''http://192.168.178.1:49000/meshlist.lua?sid=0'']) \<and>
   get_mesh_topology sample_fc False [] =
     (Inr (Topology_json [(''schema_version'', PyStr ''1.9'')]),
      [Call_action SERVICE ''X_AVM-DE_GetMeshListPath'' None [],
       Session_get ''http://192.168.178.1:49000/meshlist.lua?sid=0'']) \<and>
   get_mesh_topology (sample_fc\<lparr>port := 49443\<rparr>) False [] =
     (Inl (FritzActionError, ''Error 404: Device has no access to topology information.''),
      [Call_action SERVICE ''X_AVM-DE_GetMeshListPath'' None [],
       Session_get ''http://192.168.178.1:49443/meshlist.lua?sid=0''])"
proof -
  let ?result = "[(''NewX_AVM-DE_MeshListPath'', PyStr ''/meshlist.lua?sid=0'')]"
  let ?good = "\<lparr>response_ok = True, status_code = 200,
             response_text = ''{\"schema_version\": \"1.9\"}'',
             response_json = Inr [(''schema_version'', PyStr ''1.9'')]\<rparr>"
  let ?bad = "\<lparr>response_ok = False, status_code = 404, response_text = [],
             response_json = Inl (ValueError, []) :: pydict result\<rparr>"
  have c: "call_action sample_fc SERVICE ''X_AVM-DE_GetMeshListPath'' None [] = Inr ?result"
    "call_action (sample_fc\<lparr>port := 49443\<rparr>) SERVICE ''X_AVM-DE_GetMeshListPath'' None [] = Inr ?result"
    by (simp_all add: sample_fc_def sample_router_def SERVICE_def)
  have p: "getitem ?result ''NewX_AVM-DE_MeshListPath'' = Inr (PyStr ''/meshlist.lua?sid=0'')"
    by (simp add: getitem_def)
  have u: "''http://192.168.178.1:49000/meshlist.lua?sid=0'' =
             address sample_fc @ '':'' @ str_of_int (port sample_fc) @ py_str (PyStr ''/meshlist.lua?sid=0'')"
    "''http://192.168.178.1:49443/meshlist.lua?sid=0'' =
             address (sample_fc\<lparr>port := 49443\<rparr>) @ '':'' @ str_of_int (port (sample_fc\<lparr>port := 49443\<rparr>))
               @ py_str (PyStr ''/meshlist.lua?sid=0'')"
    by (simp_all add: sample_fc_def str_of_int_samples)
  have g: "session_get sample_fc ''http://192.168.178.1:49000/meshlist.lua?sid=0'' = Inr ?good"
    "session_get (sample_fc\<lparr>port := 49443\<rparr>) ''http://192.168.178.1:49443/meshlist.lua?sid=0'' = Inr ?bad"
    by (simp_all add: sample_fc_def sample_session_def)
  show ?thesis
    using get_mesh_topology_two_steps [OF c(1) p u(1) g(1), of True "[]"]
      get_mesh_topology_two_steps [OF c(1) p u(1) g(1), of False "[]"]
      get_mesh_topology_two_steps [OF c(2) p u(2) g(2), of False "[]"]
    by (simp add: prod_eq_iff str_of_int_samples)
qed

section \<open>Properties of \<open>wake_host\<close>\<close>

subsection \<open>The wake trigger and the scan\<close>

lemma wakeonlan_host_outcome:
  "(case wakeonlan_host fc mac lg of
      (Inl e, lg2) \<Rightarrow> Some (Inl e, lg2)
    | (Inr u, lg2) \<Rightarrow> Some (Inr (), lg2 @ [Print_waking mac])) = Some (wake_outcome fc mac lg)"
  by (simp add: wakeonlan_host_def action_def wake_outcome_def wake_answer_def wake_call_def
      split: sum.splits)

lemma wake_host_bound:
  "resolve_mac lower fc args (lg @ [Print_args args]) = Some (Inr (Some mac), lg1) \<Longrightarrow>
   wake_host lower fc args lg = Some (wake_outcome fc mac lg1)"
  by (simp add: wake_host_def wakeonlan_host_outcome)

lemma wake_host_raised:
  "resolve_mac lower fc args (lg @ [Print_args args]) = Some (Inl e, lg1) \<Longrightarrow>
   wake_host lower fc args lg = Some (Inl e, lg1)"
  by (simp add: wake_host_def)

lemma scan_entries_skips:
  assumes "\<forall>j<length xs. entry_answer fc (i + j) = Inr (xs ! j)"
    and "list_all (named_otherwise lower name) xs"
  shows "scan_entries lower fc name (lower name) (Next_index i) lg =
         scan_entries lower fc name (lower name) (Next_index (i + length xs))
           (lg @ map entry_call [i..<i + length xs])"
  using assms
proof (induction xs arbitrary: i lg)
  case Nil
  then show ?case by simp
next
  case (Cons x xs)
  have x: "entry_answer fc i = Inr x"
    using Cons.prems(1) by force
  have xs: "\<forall>j<length xs. entry_answer fc (Suc i + j) = Inr (xs ! j)"
    using Cons.prems(1) by force
  from Cons.prems(2) have hx: "named_otherwise lower name x"
    and rest: "list_all (named_otherwise lower name) xs" by simp_all
  from hx obtain s where s: "map_of x ''NewHostName'' = Some (PyStr s)"
    and ne: "lower s \<noteq> lower name"
    by (auto simp: named_otherwise_def split: option.splits pyval.splits)
  have u: "[i..<Suc (i + length xs)] = i # [Suc i..<Suc (i + length xs)]"
    by (simp add: upt_conv_Cons del: upt_Suc)
  show ?case
    by (subst scan_entries.simps)
       (simp add: next_entry_eq x getitem_def s lower_of_def ne u
          Cons.IH [OF xs rest] del: next_entry.simps upt_Suc)
qed

lemma scan_entries_match:
  assumes "entry_answer fc i = Inr entry" and "named lower name entry"
  shows "scan_entries lower fc name (lower name) (Next_index i) lg =
           Some (getitem entry ''NewMACAddress'', lg @ [entry_call i])"
proof -
  from assms(2) obtain s where s: "map_of entry ''NewHostName'' = Some (PyStr s)"
    and eq: "lower s = lower name"
    by (auto simp: named_def split: option.splits pyval.splits)
  show ?thesis
    by (subst scan_entries.simps)
       (simp add: next_entry_eq assms(1) getitem_def s lower_of_def eq del: next_entry.simps
          split: option.splits)
qed

lemma scan_entries_stop:
  assumes "entry_answer fc i = Inl e" and "isinstance e IndexError"
  shows "scan_entries lower fc name lowered (Next_index i) lg =
           Some (Inl (FritzArgumentError, ''Error: unknown device name '' @ [CHR 0x27] @ name @ [CHR 0x27]),
                 lg @ [entry_call i])"
  by (subst scan_entries.simps) (simp add: next_entry_eq assms del: next_entry.simps)

subsection \<open>The sample router\<close>

lemma sample_answers:
  "entry_answer sample_fc 0 = Inr otherhost"
  "entry_answer sample_fc (Suc 0) = Inr thishost"
  "wake_answer sample_fc mac = Inr []"
  "ip_answer sample_fc ''192.168.178.21'' = Inr thishost"
  "ip_answer sample_fc ''10.0.0.1'' = Inl (FritzLookUpError, ''NoSuchEntryInArray'')"
  by (simp_all add: entry_answer_def wake_answer_def ip_answer_def sample_fc_def
      sample_router_def SERVICE_def sample_hosts_def sample_lookup_def
      otherhost_def thishost_def sample_entry_def)

lemma sample_macs:
  "getitem thishost ''NewMACAddress'' = Inr (PyStr ''C0:FF:EE:C0:FF:EE'')"
  by (simp add: getitem_def thishost_def sample_entry_def)

lemma sample_names:
  "named ascii_lower ''thishost'' thishost"
  "named_otherwise ascii_lower ''thishost'' otherhost"
  "named_otherwise ascii_lower ''nohost'' otherhost"
  "named_otherwise ascii_lower ''nohost'' thishost"
  by (simp_all add: named_def named_otherwise_def thishost_def otherhost_def sample_entry_def
      ascii_lower_def)

subsection \<open>Resolution\<close>

text \<open>
  Claim C7. \<open>wake_host\<close> prints its arguments and then resolves the MAC address.
  \<^item> A MAC address given (a string that is not empty): no lookup is made, and the wake
    trigger is called with exactly that string.
  \<^item> No MAC address but an IP address given, for which the lookup by IP returns a host
    whose \<open>NewMACAddress\<close> is \<open>mac\<close>: that lookup is called once, nothing else is looked
    up, and the wake trigger is called with \<open>mac\<close>.
  \<^item> No MAC address and no IP address but a name given, where the enumeration yields
    first the entries \<open>others\<close>, whose names differ from the given one even up to case,
    and then \<open>entry\<close>, whose name equals it up to case and whose \<open>NewMACAddress\<close> is
    \<open>mac\<close>: the entries are requested up to this first match and no further, no lookup by
    IP is made, and the wake trigger is called with \<open>mac\<close>.
  In each case the call of the trigger is the last request, followed by the line
  \<open>Waking ...\<close> unless the trigger raises.
\<close>

theorem wake_host_resolution:
  "(given (device_mac_address args) \<longrightarrow>
      wake_host lower fc args lg =
        Some (wake_outcome fc (PyStr (the (device_mac_address args))) (lg @ [Print_args args]))) \<and>
   (\<not> given (device_mac_address args) \<and> given (device_ip_address args) \<and>
    device_ip_address args = Some ip \<and> ip_answer fc ip = Inr host \<and>
    getitem host ''NewMACAddress'' = Inr mac \<longrightarrow>
      wake_host lower fc args lg =
        Some (wake_outcome fc mac (lg @ [Print_args args, ip_call ip]))) \<and>
   (\<not> given (device_mac_address args) \<and> \<not> given (device_ip_address args) \<and>
    given (device_name args) \<and> device_name args = Some name \<and>
    map (entry_answer fc) [0..<Suc (length others)] = map Inr (others @ [entry]) \<and>
    list_all (named_otherwise lower name) others \<and> named lower name entry \<and>
    getitem entry ''NewMACAddress'' = Inr mac \<longrightarrow>
      wake_host lower fc args lg =
        Some (wake_outcome fc mac (lg @ Print_args args # map entry_call [0..<Suc (length others)])))"
proof (intro conjI impI)
  assume "given (device_mac_address args)"
  then have "resolve_mac lower fc args (lg @ [Print_args args])
               = Some (Inr (Some (PyStr (the (device_mac_address args)))), lg @ [Print_args args])"
    by (simp add: resolve_mac_def)
  then show "wake_host lower fc args lg =
        Some (wake_outcome fc (PyStr (the (device_mac_address args))) (lg @ [Print_args args]))"
    by (rule wake_host_bound)
next
  assume a: "\<not> given (device_mac_address args) \<and> given (device_ip_address args) \<and>
    device_ip_address args = Some ip \<and> ip_answer fc ip = Inr host \<and>
    getitem host ''NewMACAddress'' = Inr mac"
  then have g: "\<not> given (device_mac_address args)" "given (device_ip_address args)"
    and ip: "the (device_ip_address args) = ip"
    and h: "call_action fc SERVICE ''X_AVM-DE_GetSpecificHostEntryByIP'' None [(''NewIPAddress'', PyStr ip)] = Inr host"
      "getitem host ''NewMACAddress'' = Inr mac"
    by (auto simp: ip_answer_def)
  have "resolve_mac lower fc args (lg @ [Print_args args])
               = Some (Inr (Some mac), lg @ [Print_args args, ip_call ip])"
    by (simp add: resolve_mac_def get_specific_host_entry_by_ip_def action_def ip_call_def g ip h)
  then show "wake_host lower fc args lg =
        Some (wake_outcome fc mac (lg @ [Print_args args, ip_call ip]))"
    by (rule wake_host_bound)
next
  assume a: "\<not> given (device_mac_address args) \<and> \<not> given (device_ip_address args) \<and>
    given (device_name args) \<and> device_name args = Some name \<and>
    map (entry_answer fc) [0..<Suc (length others)] = map Inr (others @ [entry]) \<and>
    list_all (named_otherwise lower name) others \<and> named lower name entry \<and>
    getitem entry ''NewMACAddress'' = Inr mac"
  then have m: "map (entry_answer fc) [0..<Suc (length others)] = map Inr (others @ [entry])"
    by simp
  have nth: "entry_answer fc j = Inr ((others @ [entry]) ! j)" if "j < Suc (length others)" for j
    using answers_nth [OF m that] .
  have o: "\<forall>j<length others. entry_answer fc (0 + j) = Inr (others ! j)"
    using nth by (simp add: nth_append)
  have e: "entry_answer fc (length others) = Inr entry"
    using nth [of "length others"] by simp
  from a have no: "list_all (named_otherwise lower name) others" and ne: "named lower name entry"
    and mac: "getitem entry ''NewMACAddress'' = Inr mac" by simp_all
  have "scan_entries lower fc name (lower name) (Next_index 0) (lg @ [Print_args args])
          = Some (Inr mac, (lg @ [Print_args args]) @ map entry_call [0..<Suc (length others)])"
    using scan_entries_skips [OF o no, of "lg @ [Print_args args]"]
      scan_entries_match [OF e ne, of "(lg @ [Print_args args]) @ map entry_call [0..<length others]"]
    by (simp add: mac)
  moreover from a have "\<not> given (device_mac_address args)" "\<not> given (device_ip_address args)"
    "given (device_name args)" "the (device_name args) = name" by auto
  ultimately have "resolve_mac lower fc args (lg @ [Print_args args])
               = Some (Inr (Some mac), lg @ Print_args args # map entry_call [0..<Suc (length others)])"
    by (simp add: resolve_mac_def get_generic_host_entries_def del: upt_Suc)
  then show "wake_host lower fc args lg =
        Some (wake_outcome fc mac (lg @ Print_args args # map entry_call [0..<Suc (length others)]))"
    by (rule wake_host_bound)
qed

text \<open>
  The three ways on the sample router: the MAC address itself; the IP address of the
  second host, one lookup; the name \<open>thishost\<close>, which the second entry \<open>ThisHost\<close>
  matches after the first was requested and passed over.
\<close>

theorem wake_host_resolution_witness:
  "wake_host ascii_lower sample_fc by_mac []
     = Some (Inr (), [Print_args by_mac, wake_call (PyStr ''C0:FF:EE:C0:FF:EE''),
                      Print_waking (PyStr ''C0:FF:EE:C0:FF:EE'')]) \<and>
   wake_host ascii_lower sample_fc (by_ip ''192.168.178.21'') []
     = Some (Inr (), [Print_args (by_ip ''192.168.178.21''), ip_call ''192.168.178.21'',
                      wake_call (PyStr ''C0:FF:EE:C0:FF:EE''),
                      Print_waking (PyStr ''C0:FF:EE:C0:FF:EE'')]) \<and>
   wake_host ascii_lower sample_fc (by_name ''thishost'') []
     = Some (Inr (), [Print_args (by_name ''thishost''), entry_call 0, entry_call 1,
                      wake_call (PyStr ''C0:FF:EE:C0:FF:EE''),
                      Print_waking (PyStr ''C0:FF:EE:C0:FF:EE'')])"
proof -
  have a: "wake_host ascii_lower sample_fc by_mac []
     = Some (Inr (), [Print_args by_mac, wake_call (PyStr ''C0:FF:EE:C0:FF:EE''),
                      Print_waking (PyStr ''C0:FF:EE:C0:FF:EE'')])"
    using wake_host_resolution [of by_mac ascii_lower sample_fc "[]"]
    by (simp add: by_mac_def given_def wake_outcome_def sample_answers)
  have b: "wake_host ascii_lower sample_fc (by_ip ''192.168.178.21'') []
     = Some (Inr (), [Print_args (by_ip ''192.168.178.21''), ip_call ''192.168.178.21'',
                      wake_call (PyStr ''C0:FF:EE:C0:FF:EE''),
                      Print_waking (PyStr ''C0:FF:EE:C0:FF:EE'')])"
    using wake_host_resolution [of "by_ip ''192.168.178.21''" ascii_lower sample_fc "[]"
        "''192.168.178.21''" thishost "PyStr ''C0:FF:EE:C0:FF:EE''"]
    by (simp add: by_ip_def given_def wake_outcome_def sample_answers sample_macs)
  have c: "wake_host ascii_lower sample_fc (by_name ''thishost'') []
     = Some (Inr (), [Print_args (by_name ''thishost''), entry_call 0, entry_call 1,
                      wake_call (PyStr ''C0:FF:EE:C0:FF:EE''),
                      Print_waking (PyStr ''C0:FF:EE:C0:FF:EE'')])"
    using wake_host_resolution [of "by_name ''thishost''" ascii_lower sample_fc "[]"
        _ _ "PyStr ''C0:FF:EE:C0:FF:EE''" "''thishost''" "[otherhost]" thishost]
    by (simp add: by_name_def given_def wake_outcome_def sample_answers sample_macs sample_names
        upt_rec)
  from a b c show ?thesis by simp
qed

subsection \<open>Failures\<close>

text \<open>
  Claim C8. With no MAC address given:
  \<^item> an IP address given, for which the lookup by IP raises \<open>FritzArgumentError\<close> or
    \<open>FritzLookUpError\<close>: \<open>wake_host\<close> raises a new \<open>FritzArgumentError\<close> whose message
    is \<open>Error: unknown IP\<close> followed by the address;
  \<^item> no IP address but a name given, on a router that knows the hosts \<open>entries\<close>, the
    name of each of which differs from the given one even up to case: \<open>wake_host\<close>
    raises \<open>FritzArgumentError\<close> naming the unknown device.
  In both cases the requests made are the lookups only: the wake trigger is not called.
\<close>

theorem wake_host_failures:
  "(\<not> given (device_mac_address args) \<and> given (device_ip_address args) \<and>
    device_ip_address args = Some ip \<and> ip_answer fc ip = Inl e \<and>
    (isinstance e FritzArgumentError \<or> isinstance e FritzLookUpError) \<longrightarrow>
      wake_host lower fc args lg =
        Some (Inl (FritzArgumentError, ''Error: unknown IP '' @ ip),
              lg @ [Print_args args, ip_call ip]) \<and>
      filter is_wake [Print_args args, ip_call ip] = []) \<and>
   (\<not> given (device_mac_address args) \<and> \<not> given (device_ip_address args) \<and>
    given (device_name args) \<and> device_name args = Some name \<and>
    known_hosts fc entries \<and> list_all (named_otherwise lower name) entries \<longrightarrow>
      wake_host lower fc args lg =
        Some (Inl (FritzArgumentError,
                   ''Error: unknown device name '' @ [CHR 0x27] @ name @ [CHR 0x27]),
              lg @ Print_args args # map entry_call [0..<Suc (length entries)]) \<and>
      filter is_wake (Print_args args # map entry_call [0..<Suc (length entries)]) = [])"
proof (intro conjI impI)
  assume a: "\<not> given (device_mac_address args) \<and> given (device_ip_address args) \<and>
    device_ip_address args = Some ip \<and> ip_answer fc ip = Inl e \<and>
    (isinstance e FritzArgumentError \<or> isinstance e FritzLookUpError)"
  then have g: "\<not> given (device_mac_address args)" "given (device_ip_address args)"
    and ip: "the (device_ip_address args) = ip"
    and h: "call_action fc SERVICE ''X_AVM-DE_GetSpecificHostEntryByIP'' None [(''NewIPAddress'', PyStr ip)] = Inl e"
      "isinstance e FritzArgumentError \<or> isinstance e FritzLookUpError"
    by (auto simp: ip_answer_def)
  have "resolve_mac lower fc args (lg @ [Print_args args])
               = Some (Inl (FritzArgumentError, ''Error: unknown IP '' @ ip),
                       lg @ [Print_args args, ip_call ip])"
    by (simp add: resolve_mac_def get_specific_host_entry_by_ip_def action_def ip_call_def g ip h)
  then show "wake_host lower fc args lg =
        Some (Inl (FritzArgumentError, ''Error: unknown IP '' @ ip),
              lg @ [Print_args args, ip_call ip])"
    by (rule wake_host_raised)
  show "filter is_wake [Print_args args, ip_call ip] = []"
    by (simp add: is_wake_def ip_call_def)
next
  assume a: "\<not> given (device_mac_address args) \<and> \<not> given (device_ip_address args) \<and>
    given (device_name args) \<and> device_name args = Some name \<and>
    known_hosts fc entries \<and> list_all (named_otherwise lower name) entries"
  then have k: "known_hosts fc entries" by simp
  have o: "\<forall>j<length entries. entry_answer fc (0 + j) = Inr (entries ! j)"
    using known_hosts_nth [OF k] by simp
  from known_hosts_end [OF k] obtain e
    where e: "entry_answer fc (length entries) = Inl e" "isinstance e IndexError" by blast
  from a have no: "list_all (named_otherwise lower name) entries" by simp
  have "scan_entries lower fc name (lower name) (Next_index 0) (lg @ [Print_args args])
          = Some (Inl (FritzArgumentError,
                       ''Error: unknown device name '' @ [CHR 0x27] @ name @ [CHR 0x27]),
                  (lg @ [Print_args args]) @ map entry_call [0..<Suc (length entries)])"
    using scan_entries_skips [OF o no, of "lg @ [Print_args args]"]
      scan_entries_stop [OF e, of lower name "lower name"
        "(lg @ [Print_args args]) @ map entry_call [0..<length entries]"]
    by simp
  moreover from a have "\<not> given (device_mac_address args)" "\<not> given (device_ip_address args)"
    "given (device_name args)" "the (device_name args) = name" by auto
  ultimately have "resolve_mac lower fc args (lg @ [Print_args args])
               = Some (Inl (FritzArgumentError,
                            ''Error: unknown device name '' @ [CHR 0x27] @ name @ [CHR 0x27]),
                       lg @ Print_args args # map entry_call [0..<Suc (length entries)])"
    by (simp add: resolve_mac_def get_generic_host_entries_def del: upt_Suc)
  then show "wake_host lower fc args lg =
        Some (Inl (FritzArgumentError,
                   ''Error: unknown device name '' @ [CHR 0x27] @ name @ [CHR 0x27]),
              lg @ Print_args args # map entry_call [0..<Suc (length entries)])"
    by (rule wake_host_raised)
  show "filter is_wake (Print_args args # map entry_call [0..<Suc (length entries)]) = []"
    by (simp add: is_wake_def entry_call_def filter_empty_conv del: upt_Suc)
qed

text \<open>
  On the sample router: an IP address no host has, and a name no host has; the log
  ends with the lookups.
\<close>

theorem wake_host_failures_witness:
  "wake_host ascii_lower sample_fc (by_ip ''10.0.0.1'') []
     = Some (Inl (FritzArgumentError, ''Error: unknown IP 10.0.0.1''),
             [Print_args (by_ip ''10.0.0.1''), ip_call ''10.0.0.1'']) \<and>
   wake_host ascii_lower sample_fc (by_name ''nohost'') []
     = Some (Inl (FritzArgumentError, ''Error: unknown device name '' @ [CHR 0x27] @ ''nohost'' @ [CHR 0x27]),
             [Print_args (by_name ''nohost''), entry_call 0, entry_call 1, entry_call 2])"
proof -
  have a: "wake_host ascii_lower sample_fc (by_ip ''10.0.0.1'') []
     = Some (Inl (FritzArgumentError, ''Error: unknown IP 10.0.0.1''),
             [Print_args (by_ip ''10.0.0.1''), ip_call ''10.0.0.1''])"
    using wake_host_failures [of "by_ip ''10.0.0.1''" "''10.0.0.1''" sample_fc
        "(FritzLookUpError, ''NoSuchEntryInArray'')" ascii_lower "[]"]
    by (simp add: by_ip_def given_def sample_answers isinstance_def)
  have b: "wake_host ascii_lower sample_fc (by_name ''nohost'') []
     = Some (Inl (FritzArgumentError, ''Error: unknown device name '' @ [CHR 0x27] @ ''nohost'' @ [CHR 0x27]),
             [Print_args (by_name ''nohost''), entry_call 0, entry_call 1, entry_call 2])"
    using wake_host_failures [of "by_name ''nohost''" _ sample_fc _ ascii_lower "[]"
        "''nohost''" "[otherhost, thishost]"] sample_known_hosts
    by (simp add: by_name_def given_def sample_names sample_hosts_def upt_rec numeral_2_eq_2)
  from a b show ?thesis by simp
qed

end
